theory Spec2Isabelle
  imports Main "HOL-Library.Word"
begin

section \<open>The committed-entry application pipeline of a replica\<close>

text \<open>
  A shallow embedding of \<^verbatim>\<open>replica_application_state_machine.go\<close> (package storage):
  the force-error check \<^verbatim>\<open>checkForcedErr\<close>, the application batch
  (\<^verbatim>\<open>replicaAppBatch\<close>), the ephemeral batch and the side-effect dispatcher
  \<^verbatim>\<open>ApplySideEffects\<close>.

  Conventions of the embedding:
  \<^item> a Go struct is a record, with the field names of the source;
  \<^item> a Go pointer field that the source compares with \<^verbatim>\<open>nil\<close> or dereferences is an
    \<open>option\<close>; dereferencing \<open>None\<close> is the run-time panic \<open>NilDeref\<close>;
  \<^item> \<^verbatim>\<open>log.Fatalf\<close> and \<^verbatim>\<open>panic\<close> end the function with a \<open>fault\<close>
    (\<open>Inl\<close>); an ordinary Go \<^verbatim>\<open>error\<close> return is a value inside \<open>Inr\<close>;
  \<^item> \<^verbatim>\<open>uint64\<close> and \<^verbatim>\<open>int64\<close> are \<open>64 word\<close>; sequence numbers, store ids
    and the two halves of a timestamp are only compared, never computed with, and are \<open>int\<close>;
  \<^item> methods of the replica, the store, the storage engine and the protobuf messages
    that live in other files are parameters, collected in the record \<open>externals\<close>.
\<close>

subsection \<open>Faults and errors\<close>

datatype fault = NilDeref | Fatal string | Panic string

definition deref :: "'a option \<Rightarrow> fault + 'a" where
  "deref p = (case p of None \<Rightarrow> Inl NilDeref | Some v \<Rightarrow> Inr v)"

type_synonym uint64 = "64 word"
type_synonym int64 = "64 word"

subsection \<open>Protobuf messages read by the pipeline\<close>

text \<open>
  Modelled from the spec: \<^verbatim>\<open>hlc.Timestamp\<close> and its methods \<^verbatim>\<open>Less\<close> and
  \<^verbatim>\<open>Forward\<close> are not part of the file; the spec compares timestamps with \<open><\<close>
  and advances the batch's maximum timestamp by the command's.
\<close>

record Timestamp =
  WallTime :: int
  Logical :: int

definition zeroTimestamp :: Timestamp where
  "zeroTimestamp = \<lparr>WallTime = 0, Logical = 0\<rparr>"

definition Less :: "Timestamp \<Rightarrow> Timestamp \<Rightarrow> bool" where
  "Less t s = (WallTime t < WallTime s \<or> (WallTime t = WallTime s \<and> Logical t < Logical s))"

definition Forward :: "Timestamp \<Rightarrow> Timestamp \<Rightarrow> Timestamp" where
  "Forward t s = (if Less t s then s else t)"

record ReplicaDescriptor =
  StoreID :: int

definition zeroReplicaDescriptor :: ReplicaDescriptor where
  "zeroReplicaDescriptor = \<lparr>StoreID = 0\<rparr>"

record RangeDescriptor =
  RangeID :: int
  InternalReplicas :: "ReplicaDescriptor list"
  NextReplicaID :: int

text \<open>
  Modelled from the spec: \<^verbatim>\<open>RangeDescriptor.GetReplicaDescriptor\<close> is not part of the
  file; the spec rejects a lease request ``whose destination replica is not in the
  current descriptor''. The second component is the \<^verbatim>\<open>ok\<close> flag. The method reads
  the replicas of its receiver, so a \<^verbatim>\<open>nil\<close> descriptor is a \<open>NilDeref\<close> at the call.
\<close>

definition GetReplicaDescriptor :: "RangeDescriptor \<Rightarrow> int \<Rightarrow> ReplicaDescriptor \<times> bool" where
  "GetReplicaDescriptor d storeID =
     (case filter (\<lambda>rep. StoreID rep = storeID) (InternalReplicas d) of
        [] \<Rightarrow> (zeroReplicaDescriptor, False)
      | rep # _ \<Rightarrow> (rep, True))"

text \<open>The fields of \<^verbatim>\<open>roachpb.Lease\<close> that the file reads.\<close>

record Lease =
  Sequence :: int
  ProposedTS :: "Timestamp option"
  Replica :: ReplicaDescriptor

definition zeroLease :: Lease where
  "zeroLease = \<lparr>Sequence = 0, ProposedTS = None, Replica = zeroReplicaDescriptor\<rparr>"

text \<open>
  Modelled from the spec: \<^verbatim>\<open>enginepb.MVCCStats\<close>, \<^verbatim>\<open>MVCCStatsDelta\<close> and their
  methods \<^verbatim>\<open>Add\<close>, \<^verbatim>\<open>Subtract\<close>, \<^verbatim>\<open>ToStats\<close> and \<^verbatim>\<open>ToStatsDelta\<close> are not
  part of the file. The spec names the fields \<^verbatim>\<open>contains_estimates\<close>,
  \<^verbatim>\<open>sys_bytes\<close> and \<^verbatim>\<open>live_bytes\<close> and says that a delta is added to the stats.
\<close>

record MVCCStats =
  ContainsEstimates :: bool
  LiveBytes :: int64
  SysBytes :: int64

definition zeroMVCCStats :: MVCCStats where
  "zeroMVCCStats = \<lparr>ContainsEstimates = False, LiveBytes = 0, SysBytes = 0\<rparr>"

definition Add :: "MVCCStats \<Rightarrow> MVCCStats \<Rightarrow> MVCCStats" where
  "Add ms oms =
     \<lparr>ContainsEstimates = (ContainsEstimates ms \<or> ContainsEstimates oms),
      LiveBytes = LiveBytes ms + LiveBytes oms,
      SysBytes = SysBytes ms + SysBytes oms\<rparr>"

definition Subtract :: "MVCCStats \<Rightarrow> MVCCStats \<Rightarrow> MVCCStats" where
  "Subtract ms oms =
     \<lparr>ContainsEstimates = (ContainsEstimates ms \<or> ContainsEstimates oms),
      LiveBytes = LiveBytes ms - LiveBytes oms,
      SysBytes = SysBytes ms - SysBytes oms\<rparr>"

type_synonym MVCCStatsDelta = MVCCStats

definition ToStats :: "MVCCStatsDelta \<Rightarrow> MVCCStats" where
  "ToStats d = d"

definition ToStatsDelta :: "MVCCStats \<Rightarrow> MVCCStatsDelta" where
  "ToStatsDelta s = s"

text \<open>
  \<^verbatim>\<open>storagepb.ReplicaState\<close>. The truncated state is opaque to the file and is a
  number here.
\<close>

record ReplicaState =
  RaftAppliedIndex :: uint64
  LeaseAppliedIndex :: uint64
  Desc :: "RangeDescriptor option"
  Lease :: "Lease option"
  TruncatedState :: "nat option"
  GCThreshold :: "Timestamp option"
  Stats :: "MVCCStats option"
  UsingAppliedStateKey :: bool

definition zeroReplicaState :: ReplicaState where
  "zeroReplicaState =
     \<lparr>RaftAppliedIndex = 0, LeaseAppliedIndex = 0, Desc = None, Lease = None,
      TruncatedState = None, GCThreshold = None, Stats = None,
      UsingAppliedStateKey = False\<rparr>"

text \<open>
  \<^verbatim>\<open>storagepb.ReplicatedEvalResult\<close>: a struct of optional effects. The payloads of
  the split and merge triggers, of the SSTable, of the replica change and of the
  checksum request are opaque to the file and are numbers here. A repeated field
  (\<^verbatim>\<open>SuggestedCompactions\<close>) is a list, \<^verbatim>\<open>nil\<close> being the empty list.
\<close>

record Split =
  SplitTrigger :: nat

record Merge =
  MergeTrigger :: nat
  RightDesc :: RangeDescriptor

record ReplicatedEvalResult =
  IsLeaseRequest :: bool
  State :: "ReplicaState option"
  Timestamp :: Timestamp
  PrevLeaseProposal :: "Timestamp option"
  Delta :: MVCCStatsDelta
  DeprecatedDelta :: "MVCCStats option"
  Split :: "Split option"
  Merge :: "Merge option"
  AddSSTable :: "nat option"
  BlockReads :: bool
  RaftLogDelta :: int64
  SuggestedCompactions :: "nat list"
  ChangeReplicas :: "nat option"
  ComputeChecksum :: "nat option"

definition zeroReplicatedEvalResult :: ReplicatedEvalResult where
  "zeroReplicatedEvalResult =
     \<lparr>IsLeaseRequest = False, State = None, Timestamp = zeroTimestamp,
      PrevLeaseProposal = None, Delta = zeroMVCCStats, DeprecatedDelta = None,
      Split = None, Merge = None, AddSSTable = None, BlockReads = False,
      RaftLogDelta = 0, SuggestedCompactions = [], ChangeReplicas = None,
      ComputeChecksum = None\<rparr>"

text \<open>\<^verbatim>\<open>storagepb.RaftCommand\<close>; write batch and logical op log are opaque bytes.\<close>

record RaftCommand =
  ProposerLeaseSequence :: int
  DeprecatedProposerLease :: "Lease option"
  ProposerReplica :: ReplicaDescriptor
  MaxLeaseIndex :: uint64
  ReplicatedEvalResult :: ReplicatedEvalResult
  WriteBatch :: "nat list option"
  LogicalOpLog :: "nat list option"

subsection \<open>Errors returned beneath consensus\<close>

text \<open>
  \<^verbatim>\<open>roachpb.NewErrorf\<close> keeps its format string and arguments;
  \<^verbatim>\<open>newNotLeaseHolderError\<close> keeps its three arguments and the proposer's lease
  sequence of the custom message. \<open>OtherError\<close> is an error made outside the file
  (by a testing filter).
\<close>

datatype Error =
    Errorf string "uint64 list"
  | LeaseRejectedError Lease Lease string
  | NotLeaseHolderError "Lease option" int "RangeDescriptor option" int
  | BatchTimestampBeforeGCError Timestamp Timestamp
  | OtherError string

datatype proposalReevaluationReason =
    proposalNoReevaluation
  | proposalIllegalLeaseIndex
  | proposalOtherReason int

subsection \<open>Commands, batches and the state machine\<close>

text \<open>
  \<^verbatim>\<open>nonDeterministicFailure\<close>: the two constructors are the two functions of the
  file that make one; they keep the format string with its arguments, and the wrapped
  error with the safe message.
\<close>

datatype nonDeterministicFailure =
    makeNonDeterministicFailure string "uint64 list"
  | wrapWithNonDeterministicFailure string string

datatype EntryType = EntryNormal | EntryConfChange | EntryOther nat

record Entry =
  Term :: uint64
  Index :: uint64
  Type :: EntryType
  Data :: "nat list"

record ProposalData =
  command :: RaftCommand
  applied :: bool

text \<open>
  \<^verbatim>\<open>replicatedCmd\<close> is declared in another file; these are the fields the file reads
  and writes. The unlock function, the local result and the configuration change are
  opaque and are numbers here (\<open>0\<close> is the zero \<^verbatim>\<open>raftpb.ConfChange\<close>).
\<close>

record replicatedCmd =
  ent :: Entry
  idKey :: string
  raftCmd :: RaftCommand
  proposal :: "ProposalData option"
  leaseIndex :: uint64
  proposalRetry :: proposalReevaluationReason
  forcedErr :: "Error option"
  splitMergeUnlock :: "nat option"
  localResult :: "nat option"
  cc :: nat

text \<open>
  Modelled from the spec: the accessors \<^verbatim>\<open>IsLocal\<close>, \<^verbatim>\<open>Rejected\<close> and
  \<^verbatim>\<open>replicatedResult\<close> of \<^verbatim>\<open>replicatedCmd\<close> are not part of the file. A command
  is local when this replica holds its proposal (a waiter); it is rejected when staging
  populated its forced error.
\<close>

definition IsLocal :: "replicatedCmd \<Rightarrow> bool" where
  "IsLocal c = (proposal c \<noteq> None)"

definition Rejected :: "replicatedCmd \<Rightarrow> bool" where
  "Rejected c = (forcedErr c \<noteq> None)"

definition replicatedResult :: "replicatedCmd \<Rightarrow> ReplicatedEvalResult" where
  "replicatedResult c = ReplicatedEvalResult (raftCmd c)"

definition set_replicatedResult :: "replicatedCmd \<Rightarrow> ReplicatedEvalResult \<Rightarrow> replicatedCmd" where
  "set_replicatedResult c res = c\<lparr>raftCmd := (raftCmd c)\<lparr>ReplicatedEvalResult := res\<rparr>\<rparr>"

text \<open>
  The writes staged in an \<^verbatim>\<open>engine.Batch\<close>, in order. The state loader is handed
  the pointer \<^verbatim>\<open>b.state.Stats\<close>, an \<open>option\<close> here.
\<close>

datatype batch_op =
    ApplyBatchRepr "nat list"
  | SplitPreApply nat
  | PreDestroyRaftMuLocked nat int
  | TruncatedStateBelowRaft "nat option" nat
  | MigrateToRangeAppliedStateKey "MVCCStats option"
  | SetRangeAppliedState uint64 uint64 "MVCCStats option"
  | SetLegacyAppliedIndexBlind uint64 uint64
  | SetMVCCStats "MVCCStats option"

text \<open>
  The calls the pipeline makes on its collaborators (clock, metrics, queues, rangefeed,
  effect handlers of the replica, the engine's commit), in the order it makes them.
  Logging and tracing calls are left out.
\<close>

datatype event =
    ClockUpdate Timestamp
  | AcquireSplitMergeLock nat
  | ReleaseSplitMergeLock nat
  | AddSSTablePreApply uint64 uint64 nat
  | MetricInc string
  | HandleLogicalOpLog "nat list option"
  | Commit "batch_op list" bool
  | BatchClose
  | AddMVCCStats MVCCStats
  | RecordCount int
  | SplitQueueMaybeAddAsync
  | MergeQueueMaybeAddAsync
  | RecordCommitLatency
  | ReadOnlyCmdMuLock
  | ReadOnlyCmdMuUnlock
  | AssertState
  | HandleTruncatedStateResult nat
  | HandleRaftLogDeltaResult int64
  | HandleSuggestedCompactionsResult "nat list"
  | HandleSplitResult Split
  | HandleMergeResult Merge
  | HandleDescResult RangeDescriptor
  | HandleLeaseResult Lease
  | HandleGCThresholdResult Timestamp
  | HandleUsingAppliedStateKeyResult
  | HandleChangeReplicasResult nat
  | HandleComputeChecksumResult nat
  | HandleNoRaftLogDeltaResult
  | HandleLocalEvalResult nat
  | ApplyConfChange nat

text \<open>
  The part of \<^verbatim>\<open>Replica\<close> the file touches: the live state \<^verbatim>\<open>r.mu.state\<close>, the
  trust flag of the log size, the identifiers handed to the testing filter, and the
  trace of calls on collaborators.
\<close>

record Replica =
  mu_state :: ReplicaState
  raftLogSizeTrusted :: bool
  r_RangeID :: int
  r_StoreID :: int
  trace :: "event list"

definition emit :: "Replica \<Rightarrow> event list \<Rightarrow> Replica" where
  "emit r evs = r\<lparr>trace := trace r @ evs\<rparr>"

text \<open>
  \<^verbatim>\<open>replicaAppBatch\<close>. Its fields \<^verbatim>\<open>r\<close> and \<^verbatim>\<open>sm\<close> point back at the replica and
  the state machine; the model passes the state machine to every method instead. The
  field \<^verbatim>\<open>stats\<close> is the struct that \<^verbatim>\<open>state.Stats\<close> points at, and is kept there.
  The engine batch is \<^verbatim>\<open>nil\<close> once committed. The start time is left out.
\<close>

record replicaAppBatch =
  batch :: "batch_op list option"
  state :: ReplicaState
  maxTS :: Timestamp
  migrateToAppliedStateKey :: bool
  entries :: int
  emptyEntries :: int
  mutations :: int

record ephemeralReplicaAppBatch =
  eph_state :: ReplicaState

record applyCommittedEntriesStats =
  batchesProcessed :: int
  entriesProcessed :: int
  stateAssertions :: int
  numEmptyEntries :: int

record replicaStateMachine =
  sm_r :: Replica
  sm_batch :: replicaAppBatch
  sm_ephemeralBatch :: ephemeralReplicaAppBatch
  sm_stats :: applyCommittedEntriesStats

subsection \<open>Collaborators outside the file\<close>

record ApplyFilterArgs =
  CmdID :: string
  FilterReplicatedEvalResult :: ReplicatedEvalResult
  FilterStoreID :: int
  FilterRangeID :: int

text \<open>
  Functions and methods the file calls and does not define. An \<^verbatim>\<open>error\<close> they
  return is its message; a write into the engine batch fails or not as
  \<open>batchWriteErr\<close> says, given the write and the batch so far.
  \<^item> \<open>Equivalent\<close>: \<^verbatim>\<open>roachpb.Lease.Equivalent\<close>;
  \<^item> \<open>TestingApplyFilter\<close>: the testing knob of the store, \<^verbatim>\<open>nil\<close> outside tests;
  \<^item> \<open>acquireSplitLock\<close>, \<open>acquireMergeLock\<close>: an error or the unlock function (or \<^verbatim>\<open>nil\<close>);
  \<^item> \<open>RocksDBBatchCount\<close>: an error or the number of mutations of a write batch;
  \<^item> \<open>addSSTablePreApply\<close>: whether the SSTable was copied;
  \<^item> \<open>GetReplica\<close>: an error or the replica of the right-hand side;
  \<^item> \<open>handleTruncatedStateBelowRaft\<close>: an error or whether the truncation applies;
  \<^item> \<open>CommitErr\<close>: the error of \<^verbatim>\<open>engine.Batch.Commit\<close>, if any;
  \<^item> \<open>legacyAppliedIndexSysBytes\<close>: the \<^verbatim>\<open>SysBytes\<close> that
    \<^verbatim>\<open>SetLegacyAppliedIndexBlind\<close> leaves in the stats it is given;
  \<^item> \<open>migratedStats\<close>: \<^verbatim>\<open>MigrateToRangeAppliedStateKey\<close> is handed the pointer
    \<^verbatim>\<open>b.state.Stats\<close>; these are the stats it leaves in the pointed struct (the two
    setters \<^verbatim>\<open>SetRangeAppliedState\<close> and \<^verbatim>\<open>SetMVCCStats\<close> write the stats they are
    handed and leave them as they are);
  \<^item> \<open>clearTrivialReplicatedEvalResultFields\<close>: the result with its trivial fields
    cleared; \<open>IsTrivial\<close>: the method of the command;
  \<^item> \<open>prepareLocalResult\<close>: the method of the replica of this name. It is handed the
    pointer to the command and returns nothing: it may end in a fault, and otherwise
    leaves the replica and the command as this function says, any field of the command
    (the proposal and the forced error too) possibly changed;
  \<^item> \<open>handleTruncatedStateResult\<close>: the log size delta it returns;
  \<^item> \<open>assertStateLocked\<close>: true when the state on disk and the state in memory agree;
  \<^item> \<open>withRaftGroup\<close>: its error, if any.
  The effect handlers of the replica (\<^verbatim>\<open>handleSplitResult\<close> and the like) are calls
  recorded in the trace.
\<close>

record externals =
  Equivalent :: "Lease \<Rightarrow> Lease \<Rightarrow> bool"
  TestingApplyFilter :: "(ApplyFilterArgs \<Rightarrow> int \<times> Error option) option"
  acquireSplitLock :: "Replica \<Rightarrow> nat \<Rightarrow> string + nat option"
  acquireMergeLock :: "Replica \<Rightarrow> nat \<Rightarrow> string + nat option"
  RocksDBBatchCount :: "nat list \<Rightarrow> string + int"
  batchWriteErr :: "batch_op \<Rightarrow> batch_op list \<Rightarrow> string option"
  addSSTablePreApply :: "Replica \<Rightarrow> uint64 \<Rightarrow> uint64 \<Rightarrow> nat \<Rightarrow> bool"
  GetReplica :: "Replica \<Rightarrow> int \<Rightarrow> string + nat"
  handleTruncatedStateBelowRaft :: "nat option \<Rightarrow> nat \<Rightarrow> batch_op list \<Rightarrow> string + bool"
  CommitErr :: "batch_op list \<Rightarrow> string option"
  legacyAppliedIndexSysBytes :: "uint64 \<Rightarrow> uint64 \<Rightarrow> int64"
  CalcAppliedIndexSysBytes :: "uint64 \<Rightarrow> uint64 \<Rightarrow> int64"
  migratedStats :: "MVCCStats \<Rightarrow> MVCCStats"
  needsSplitBySizeRLocked :: "Replica \<Rightarrow> bool"
  needsMergeBySizeRLocked :: "Replica \<Rightarrow> bool"
  splitQueuePresent :: bool
  mergeQueuePresent :: bool
  splitQueueThrottle_ShouldProcess :: "Replica \<Rightarrow> bool"
  mergeQueueThrottle_ShouldProcess :: "Replica \<Rightarrow> bool"
  clearTrivialReplicatedEvalResultFields :: "ReplicatedEvalResult \<Rightarrow> ReplicatedEvalResult"
  IsTrivial :: "replicatedCmd \<Rightarrow> bool"
  prepareLocalResult :: "Replica \<Rightarrow> replicatedCmd \<Rightarrow> fault + (Replica \<times> replicatedCmd)"
  handleTruncatedStateResult :: "Replica \<Rightarrow> nat \<Rightarrow> int64"
  assertStateLocked :: "Replica \<Rightarrow> bool"
  withRaftGroup :: "Replica \<Rightarrow> string option"

subsection \<open>The force-error check\<close>

text \<open>
  Lines 196 to 238 of \<^verbatim>\<open>checkForcedErr\<close>: does the lease the command was proposed
  under differ from the current one? Both branches dereference
  \<^verbatim>\<open>replicaState.Lease\<close> first; \<open>cur\<close> is its value.
\<close>

definition leaseMismatchOf ::
  "externals \<Rightarrow> RaftCommand \<Rightarrow> Lease \<Rightarrow> bool \<Rightarrow> Lease \<Rightarrow> fault + bool" where
  "leaseMismatchOf ext rcmd cur isLeaseRequest requestedLease =
          (case DeprecatedProposerLease rcmd of
             Some dpl \<Rightarrow> Inr (\<not> Equivalent ext dpl cur)
           | None \<Rightarrow>
               (let leaseMismatch = (ProposerLeaseSequence rcmd \<noteq> Sequence cur) in
                if \<not> leaseMismatch \<and> isLeaseRequest then
                  (let leaseMismatch =
                         (if Sequence cur = Sequence requestedLease
                          then \<not> Equivalent ext cur requestedLease
                          else leaseMismatch) in
                   case PrevLeaseProposal (ReplicatedEvalResult rcmd) of
                     None \<Rightarrow> Inr leaseMismatch
                   | Some prev \<Rightarrow>
                       (case deref (ProposedTS cur) of
                          Inl f \<Rightarrow> Inl f
                        | Inr pts \<Rightarrow> Inr (if prev \<noteq> pts then True else leaseMismatch)))
                else Inr leaseMismatch))"

definition checkForcedErr ::
  "externals \<Rightarrow> string \<Rightarrow> RaftCommand \<Rightarrow> bool \<Rightarrow> ReplicaState
     \<Rightarrow> fault + (uint64 \<times> proposalReevaluationReason \<times> Error option)" where
  "checkForcedErr ext key rcmd isLocal replicaState =
     (let leaseIndex = LeaseAppliedIndex replicaState;
          isLeaseRequest = IsLeaseRequest (ReplicatedEvalResult rcmd) in
      case (if isLeaseRequest
            then (case deref (State (ReplicatedEvalResult rcmd)) of
                    Inl f \<Rightarrow> Inl f
                  | Inr st \<Rightarrow> deref (Lease st))
            else Inr zeroLease) of
        Inl f \<Rightarrow> Inl f
      | Inr requestedLease \<Rightarrow>
          if key = [] then
            Inr (leaseIndex, proposalNoReevaluation,
                 Some (Errorf ''no-op on empty Raft entry'' []))
          else
            (case (case deref (Lease replicaState) of
                     Inl f \<Rightarrow> Inl f
                   | Inr cur \<Rightarrow>
                       (case leaseMismatchOf ext rcmd cur isLeaseRequest requestedLease of
                          Inl f \<Rightarrow> Inl f
                        | Inr leaseMismatch \<Rightarrow> Inr (cur, leaseMismatch))) of
               Inl f \<Rightarrow> Inl f
             | Inr (cur, leaseMismatch) \<Rightarrow>
                 if leaseMismatch then
                   (if isLeaseRequest then
                      Inr (leaseIndex, proposalNoReevaluation,
                           Some (LeaseRejectedError cur requestedLease
                                   ''proposed under invalid lease''))
                    else
                      Inr (leaseIndex, proposalNoReevaluation,
                           Some (NotLeaseHolderError (Lease replicaState)
                                   (StoreID (ProposerReplica rcmd)) (Desc replicaState)
                                   (ProposerLeaseSequence rcmd))))
                 else
                   (case (if isLeaseRequest then
                            (case deref (Desc replicaState) of
                               Inl f \<Rightarrow> Inl f
                             | Inr d \<Rightarrow>
                                 if \<not> snd (GetReplicaDescriptor d (StoreID (Replica requestedLease)))
                                 then Inr (Inl (leaseIndex, proposalNoReevaluation,
                                      Some (LeaseRejectedError cur
                                              requestedLease ''replica not part of range'')))
                                 else Inr (Inr leaseIndex))
                          else if LeaseAppliedIndex replicaState < MaxLeaseIndex rcmd then
                            Inr (Inr (MaxLeaseIndex rcmd))
                          else
                            (let retry = (if isLocal then proposalIllegalLeaseIndex
                                          else proposalNoReevaluation) in
                             Inr (Inl (leaseIndex, retry,
                                  Some (Errorf
                                    ''command observed at lease index %d, but required < %d''
                                    [leaseIndex, MaxLeaseIndex rcmd]))))) of
                      Inl f \<Rightarrow> Inl f
                    | Inr (Inl early) \<Rightarrow> Inr early
                    | Inr (Inr leaseIndex) \<Rightarrow>
                        (let ts = Timestamp (ReplicatedEvalResult rcmd) in
                         case deref (GCThreshold replicaState) of
                           Inl f \<Rightarrow> Inl f
                         | Inr thresh \<Rightarrow>
                             if \<not> Less thresh ts then
                               Inr (leaseIndex, proposalNoReevaluation,
                                    Some (BatchTimestampBeforeGCError ts thresh))
                             else Inr (leaseIndex, proposalNoReevaluation, None)))))"


subsection \<open>shouldApplyCommand and NewBatch\<close>

text \<open>
  The cast \<^verbatim>\<open>proposalReevaluationReason(newPropRetry)\<close>; the source tests
  \<^verbatim>\<open>cmd.proposalRetry == 0\<close>, the zero value being \<open>proposalNoReevaluation\<close>.
\<close>

definition reasonOfInt :: "int \<Rightarrow> proposalReevaluationReason" where
  "reasonOfInt n =
     (if n = 0 then proposalNoReevaluation
      else if n = 1 then proposalIllegalLeaseIndex
      else proposalOtherReason n)"

definition shouldApplyCommand ::
  "externals \<Rightarrow> Replica \<Rightarrow> replicatedCmd \<Rightarrow> ReplicaState \<Rightarrow> fault + (replicatedCmd \<times> bool)" where
  "shouldApplyCommand ext r c replicaState =
     (case checkForcedErr ext (idKey c) (raftCmd c) (IsLocal c) replicaState of
        Inl f \<Rightarrow> Inl f
      | Inr (li, retry, ferr) \<Rightarrow>
          (let c = c\<lparr>leaseIndex := li, proposalRetry := retry, forcedErr := ferr\<rparr> in
           case TestingApplyFilter ext of
             None \<Rightarrow> Inr (c, forcedErr c = None)
           | Some filt \<Rightarrow>
               if forcedErr c = None then
                 (let (newPropRetry, ferr') =
                        filt \<lparr>CmdID = idKey c,
                                FilterReplicatedEvalResult = replicatedResult c,
                                FilterStoreID = r_StoreID r, FilterRangeID = r_RangeID r\<rparr>;
                      c = c\<lparr>forcedErr := ferr'\<rparr>;
                      c = (if proposalRetry c = proposalNoReevaluation
                           then c\<lparr>proposalRetry := reasonOfInt newPropRetry\<rparr> else c)
                  in Inr (c, forcedErr c = None))
               else Inr (c, False)))"

definition NewBatch :: "replicaStateMachine \<Rightarrow> bool \<Rightarrow> fault + replicaStateMachine" where
  "NewBatch sm ephemeral =
     (let r = sm_r sm in
      if ephemeral then
        Inr (sm\<lparr>sm_ephemeralBatch := (sm_ephemeralBatch sm)\<lparr>eph_state := mu_state r\<rparr>\<rparr>)
      else
        (case deref (Stats (mu_state r)) of
           Inl f \<Rightarrow> Inl f
         | Inr liveStats \<Rightarrow>
             Inr (sm\<lparr>sm_batch := (sm_batch sm)
                    \<lparr>batch := Some [], state := (mu_state r)\<lparr>Stats := Some liveStats\<rparr>\<rparr>\<rparr>)))"

subsection \<open>The ephemeral batch\<close>

text \<open>
  A method returns a fault, or the state machine and the command as it left them
  together with the \<^verbatim>\<open>error\<close> it returned, if any.
\<close>

type_synonym 's outcome = "fault + ('s \<times> nonDeterministicFailure option)"

definition ephemeralReplicaAppBatch_Stage ::
  "externals \<Rightarrow> replicaStateMachine \<Rightarrow> replicatedCmd
     \<Rightarrow> (replicaStateMachine \<times> replicatedCmd) outcome" where
  "ephemeralReplicaAppBatch_Stage ext sm c =
     (let mb = sm_ephemeralBatch sm in
      case shouldApplyCommand ext (sm_r sm) c (eph_state mb) of
        Inl f \<Rightarrow> Inl f
      | Inr (c, ok) \<Rightarrow>
          Inr ((sm\<lparr>sm_ephemeralBatch :=
                      mb\<lparr>eph_state := (eph_state mb)\<lparr>LeaseAppliedIndex := leaseIndex c\<rparr>\<rparr>\<rparr>, c),
               None))"

definition ephemeralReplicaAppBatch_ApplyToStateMachine ::
  "replicaStateMachine \<Rightarrow> replicaStateMachine outcome" where
  "ephemeralReplicaAppBatch_ApplyToStateMachine sm =
     Inl (Panic ''cannot apply ephemeralReplicaAppBatch to state machine'')"

subsection \<open>Staging a command in the application batch\<close>

definition andThen :: "'s outcome \<Rightarrow> ('s \<Rightarrow> 's outcome) \<Rightarrow> 's outcome" where
  "andThen m k =
     (case m of
        Inl f \<Rightarrow> Inl f
      | Inr (s, Some e) \<Rightarrow> Inr (s, Some e)
      | Inr (s, None) \<Rightarrow> k s)"

text \<open>
  Modelled from the spec: \<^verbatim>\<open>maybeAcquireSplitMergeLock\<close> is not part of the file.
  The spec acquires the lock of a split or a merge and says that a rejected command's
  cleared result yields no lock.
\<close>

definition maybeAcquireSplitMergeLock ::
  "externals \<Rightarrow> Replica \<Rightarrow> RaftCommand \<Rightarrow> string + nat option" where
  "maybeAcquireSplitMergeLock ext r rcmd =
     (case Split (ReplicatedEvalResult rcmd) of
        Some split \<Rightarrow> acquireSplitLock ext r (SplitTrigger split)
      | None \<Rightarrow>
          (case Merge (ReplicatedEvalResult rcmd) of
             Some merge \<Rightarrow> acquireMergeLock ext r (MergeTrigger merge)
           | None \<Rightarrow> Inr None))"

text \<open>A write into the engine batch that can fail; the batch must be open.\<close>

definition batchWrite ::
  "externals \<Rightarrow> batch_op \<Rightarrow> batch_op list option \<Rightarrow> fault + (string + batch_op list)" where
  "batchWrite ext w bt =
     (case deref bt of
        Inl f \<Rightarrow> Inl f
      | Inr ops \<Rightarrow>
          (case batchWriteErr ext w ops of
             Some e \<Rightarrow> Inr (Inl e)
           | None \<Rightarrow> Inr (Inr (ops @ [w]))))"

text \<open>Lines 427 to 436 of \<^verbatim>\<open>Stage\<close>: check the command and wipe a rejected one.\<close>

definition Stage_check ::
  "externals \<Rightarrow> replicaStateMachine \<times> replicatedCmd
     \<Rightarrow> (replicaStateMachine \<times> replicatedCmd) outcome" where
  "Stage_check ext = (\<lambda>(sm, c).
     case shouldApplyCommand ext (sm_r sm) c (state (sm_batch sm)) of
       Inl f \<Rightarrow> Inl f
     | Inr (c, ok) \<Rightarrow>
         Inr ((sm, if \<not> ok
                   then c\<lparr>raftCmd := (raftCmd c)
                          \<lparr>ReplicatedEvalResult := zeroReplicatedEvalResult,
                           WriteBatch := None, LogicalOpLog := None\<rparr>\<rparr>
                   else c), None))"

text \<open>Lines 438 to 447: the split or merge lock.\<close>

definition Stage_lock ::
  "externals \<Rightarrow> replicaStateMachine \<times> replicatedCmd
     \<Rightarrow> (replicaStateMachine \<times> replicatedCmd) outcome" where
  "Stage_lock ext = (\<lambda>(sm, c).
     case maybeAcquireSplitMergeLock ext (sm_r sm) (raftCmd c) of
       Inl err \<Rightarrow>
         Inr ((sm, c), Some (wrapWithNonDeterministicFailure err ''unable to acquire split lock''))
     | Inr None \<Rightarrow> Inr ((sm, c), None)
     | Inr (Some unlock) \<Rightarrow>
         Inr ((sm\<lparr>sm_r := emit (sm_r sm) [AcquireSplitMergeLock unlock]\<rparr>,
               c\<lparr>splitMergeUnlock := Some unlock\<rparr>), None))"

definition migrateReplicatedResult :: "replicatedCmd \<Rightarrow> fault + replicatedCmd" where
  "migrateReplicatedResult c =
     (let res = replicatedResult c in
      case DeprecatedDelta res of
        None \<Rightarrow> Inr c
      | Some deprecatedDelta \<Rightarrow>
          if Delta res \<noteq> zeroMVCCStats then
            Inl (Fatal ''stats delta not empty but deprecated delta provided: %+v'')
          else
            Inr (set_replicatedResult c
                   (res\<lparr>Delta := ToStatsDelta deprecatedDelta, DeprecatedDelta := None\<rparr>)))"

definition stageWriteBatch ::
  "externals \<Rightarrow> replicaAppBatch \<Rightarrow> replicatedCmd \<Rightarrow> replicaAppBatch outcome" where
  "stageWriteBatch ext b c =
     (case WriteBatch (raftCmd c) of
        None \<Rightarrow> Inr (b, None)
      | Some wb \<Rightarrow>
          (let b = (case RocksDBBatchCount ext wb of
                      Inl err \<Rightarrow> b
                    | Inr n \<Rightarrow> b\<lparr>mutations := mutations b + n\<rparr>) in
           case batchWrite ext (ApplyBatchRepr wb) (batch b) of
             Inl f \<Rightarrow> Inl f
           | Inr (Inl err) \<Rightarrow>
               Inr (b, Some (wrapWithNonDeterministicFailure err ''unable to apply WriteBatch''))
           | Inr (Inr ops) \<Rightarrow> Inr (b\<lparr>batch := Some ops\<rparr>, None)))"


text \<open>
  \<^verbatim>\<open>runPreApplyTriggers\<close>, one definition for each trigger in the order of the
  source. \<^verbatim>\<open>res\<close> points into the command, so a change of \<^verbatim>\<open>res\<close> is a change of
  the command.
\<close>

definition trigger_AddSSTable ::
  "externals \<Rightarrow> replicaStateMachine \<times> replicatedCmd
     \<Rightarrow> (replicaStateMachine \<times> replicatedCmd) outcome" where
  "trigger_AddSSTable ext = (\<lambda>(sm, c).
     let res = replicatedResult c in
     case AddSSTable res of
       None \<Rightarrow> Inr ((sm, c), None)
     | Some sst \<Rightarrow>
         (let r = sm_r sm;
              copied = addSSTablePreApply ext r (Term (ent c)) (Index (ent c)) sst;
              r = emit r [AddSSTablePreApply (Term (ent c)) (Index (ent c)) sst,
                          MetricInc ''AddSSTableApplications''];
              r = (if copied then emit r [MetricInc ''AddSSTableApplicationCopies''] else r)
          in Inr ((sm\<lparr>sm_r := r\<rparr>, set_replicatedResult c (res\<lparr>AddSSTable := None\<rparr>)), None)))"

definition trigger_Split ::
  "replicaStateMachine \<times> replicatedCmd \<Rightarrow> (replicaStateMachine \<times> replicatedCmd) outcome" where
  "trigger_Split = (\<lambda>(sm, c).
     case Split (replicatedResult c) of
       None \<Rightarrow> Inr ((sm, c), None)
     | Some split \<Rightarrow>
         (case deref (batch (sm_batch sm)) of
            Inl f \<Rightarrow> Inl f
          | Inr ops \<Rightarrow>
              Inr ((sm\<lparr>sm_batch := (sm_batch sm)
                      \<lparr>batch := Some (ops @ [SplitPreApply (SplitTrigger split)])\<rparr>\<rparr>, c), None)))"

definition trigger_Merge ::
  "externals \<Rightarrow> replicaStateMachine \<times> replicatedCmd
     \<Rightarrow> (replicaStateMachine \<times> replicatedCmd) outcome" where
  "trigger_Merge ext = (\<lambda>(sm, c).
     case Merge (replicatedResult c) of
       None \<Rightarrow> Inr ((sm, c), None)
     | Some merge \<Rightarrow>
         (case GetReplica ext (sm_r sm) (RangeID (RightDesc merge)) of
            Inl err \<Rightarrow>
              Inr ((sm, c),
                   Some (wrapWithNonDeterministicFailure err ''unable to get replica for merge''))
          | Inr rhsRepl \<Rightarrow>
              (case batchWrite ext
                      (PreDestroyRaftMuLocked rhsRepl (NextReplicaID (RightDesc merge)))
                      (batch (sm_batch sm)) of
                 Inl f \<Rightarrow> Inl f
               | Inr (Inl err) \<Rightarrow>
                   Inr ((sm, c),
                        Some (wrapWithNonDeterministicFailure err
                                ''unable to destroy range before merge''))
               | Inr (Inr ops) \<Rightarrow>
                   Inr ((sm\<lparr>sm_batch := (sm_batch sm)\<lparr>batch := Some ops\<rparr>\<rparr>, c), None))))"

text \<open>
  The helper \<^verbatim>\<open>handleTruncatedStateBelowRaft\<close> is given the batch; the write it makes
  when the truncation applies is recorded in it.
\<close>

definition trigger_TruncatedState ::
  "externals \<Rightarrow> replicaStateMachine \<times> replicatedCmd
     \<Rightarrow> (replicaStateMachine \<times> replicatedCmd) outcome" where
  "trigger_TruncatedState ext = (\<lambda>(sm, c).
     let res = replicatedResult c; b = sm_batch sm in
     case State res of
       None \<Rightarrow> Inr ((sm, c), None)
     | Some rs \<Rightarrow>
         (case TruncatedState rs of
            None \<Rightarrow> Inr ((sm, c), None)
          | Some t \<Rightarrow>
              (case deref (batch b) of
                 Inl f \<Rightarrow> Inl f
               | Inr ops \<Rightarrow>
                   (case handleTruncatedStateBelowRaft ext (TruncatedState (state b)) t ops of
                      Inl err \<Rightarrow>
                        Inr ((sm, c),
                             Some (wrapWithNonDeterministicFailure err
                                     ''unable to handle truncated state''))
                    | Inr apply \<Rightarrow>
                        if \<not> apply then
                          Inr ((sm\<lparr>sm_r := (sm_r sm)\<lparr>raftLogSizeTrusted := False\<rparr>\<rparr>,
                                set_replicatedResult c
                                  (res\<lparr>State := Some (rs\<lparr>TruncatedState := None\<rparr>),
                                       RaftLogDelta := 0\<rparr>)), None)
                        else
                          Inr ((sm\<lparr>sm_batch := b\<lparr>batch := Some (ops @
                                  [TruncatedStateBelowRaft (TruncatedState (state b)) t])\<rparr>\<rparr>,
                                c), None)))))"

definition trigger_LogicalOpLog ::
  "replicaStateMachine \<times> replicatedCmd \<Rightarrow> (replicaStateMachine \<times> replicatedCmd) outcome" where
  "trigger_LogicalOpLog = (\<lambda>(sm, c).
     if WriteBatch (raftCmd c) \<noteq> None then
       Inr ((sm\<lparr>sm_r := emit (sm_r sm) [HandleLogicalOpLog (LogicalOpLog (raftCmd c))]\<rparr>, c),
            None)
     else if LogicalOpLog (raftCmd c) \<noteq> None then
       Inl (Fatal ''non-nil logical op log with nil write batch: %v'')
     else Inr ((sm, c), None))"

definition runPreApplyTriggers ::
  "externals \<Rightarrow> replicaStateMachine \<times> replicatedCmd
     \<Rightarrow> (replicaStateMachine \<times> replicatedCmd) outcome" where
  "runPreApplyTriggers ext s =
     andThen (trigger_AddSSTable ext s) (\<lambda>s.
     andThen (trigger_Split s) (\<lambda>s.
     andThen (trigger_Merge ext s) (\<lambda>s.
     andThen (trigger_TruncatedState ext s) trigger_LogicalOpLog)))"

definition stageTrivialReplicatedEvalResult ::
  "replicaAppBatch \<Rightarrow> replicatedCmd \<Rightarrow> fault + replicaAppBatch" where
  "stageTrivialReplicatedEvalResult b c =
     (let st = state b;
          st = (if Index (ent c) \<noteq> 0 then st\<lparr>RaftAppliedIndex := Index (ent c)\<rparr> else st);
          st = (if leaseIndex c \<noteq> 0 then st\<lparr>LeaseAppliedIndex := leaseIndex c\<rparr> else st);
          res = replicatedResult c in
      case deref (Stats st) of
        Inl f \<Rightarrow> Inl f
      | Inr ms \<Rightarrow>
          (let ms = Add ms (ToStats (Delta res));
               ms = (if Split res \<noteq> None then ms\<lparr>ContainsEstimates := False\<rparr> else ms);
               b = b\<lparr>state := st\<lparr>Stats := Some ms\<rparr>\<rparr>
           in Inr (if (case State res of
                         None \<Rightarrow> False
                       | Some rs \<Rightarrow> UsingAppliedStateKey rs \<and> \<not> UsingAppliedStateKey (state b))
                   then b\<lparr>migrateToAppliedStateKey := True\<rparr> else b)))"

text \<open>Lines 427 to 477 of \<^verbatim>\<open>Stage\<close>, after the two checks of the entry index.\<close>

definition Stage_staged ::
  "externals \<Rightarrow> replicaStateMachine \<times> replicatedCmd
     \<Rightarrow> (replicaStateMachine \<times> replicatedCmd) outcome" where
  "Stage_staged ext s =
     andThen (Stage_check ext s) (\<lambda>s.
     andThen (Stage_lock ext s) (\<lambda>(sm, c).
       let b = sm_batch sm;
           b = b\<lparr>maxTS := Forward (maxTS b) (Timestamp (replicatedResult c))\<rparr> in
       case migrateReplicatedResult c of
         Inl f \<Rightarrow> Inl f
       | Inr c \<Rightarrow>
     andThen (case stageWriteBatch ext b c of
                Inl f \<Rightarrow> Inl f
              | Inr (b, err) \<Rightarrow> Inr ((sm\<lparr>sm_batch := b\<rparr>, c), err)) (\<lambda>s.
     andThen (runPreApplyTriggers ext s) (\<lambda>(sm, c).
       case stageTrivialReplicatedEvalResult (sm_batch sm) c of
         Inl f \<Rightarrow> Inl f
       | Inr b \<Rightarrow>
           (let b = b\<lparr>entries := entries b + 1\<rparr>;
                b = (if length (Data (ent c)) = 0
                     then b\<lparr>emptyEntries := emptyEntries b + 1\<rparr> else b)
            in Inr ((sm\<lparr>sm_batch := b\<rparr>, c), None))))))"

definition replicaAppBatch_Stage ::
  "externals \<Rightarrow> replicaStateMachine \<Rightarrow> replicatedCmd
     \<Rightarrow> (replicaStateMachine \<times> replicatedCmd) outcome" where
  "replicaAppBatch_Stage ext sm c =
     (if Index (ent c) = 0 then
        Inr ((sm, c),
             Some (makeNonDeterministicFailure
                     ''processRaftCommand requires a non-zero index'' []))
      else if Index (ent c) \<noteq> RaftAppliedIndex (state (sm_batch sm)) + 1 then
        Inr ((sm, c),
             Some (makeNonDeterministicFailure ''applied index jumped from %d to %d''
                     [RaftAppliedIndex (state (sm_batch sm)), Index (ent c)]))
      else Stage_staged ext (sm, c))"


subsection \<open>Committing the application batch\<close>

definition addAppliedStateKeyToBatch ::
  "externals \<Rightarrow> replicaAppBatch \<Rightarrow> replicaAppBatch outcome" where
  "addAppliedStateKeyToBatch ext b =
     andThen
       (if migrateToAppliedStateKey b then
          (case batchWrite ext (MigrateToRangeAppliedStateKey (Stats (state b))) (batch b) of
             Inl f \<Rightarrow> Inl f
           | Inr (Inl err) \<Rightarrow>
               Inr (b, Some (wrapWithNonDeterministicFailure err
                               ''unable to migrate to range applied state''))
           | Inr (Inr ops) \<Rightarrow>
               Inr (b\<lparr>batch := Some ops,
                      state := (state b)
                        \<lparr>Stats := map_option (migratedStats ext) (Stats (state b)),
                         UsingAppliedStateKey := True\<rparr>\<rparr>,
                    None))
        else Inr (b, None))
       (\<lambda>b.
          let rai = RaftAppliedIndex (state b); lai = LeaseAppliedIndex (state b) in
          if UsingAppliedStateKey (state b) then
            (case batchWrite ext (SetRangeAppliedState rai lai (Stats (state b))) (batch b) of
               Inl f \<Rightarrow> Inl f
             | Inr (Inl err) \<Rightarrow>
                 Inr (b, Some (wrapWithNonDeterministicFailure err
                                 ''unable to set range applied state''))
             | Inr (Inr ops) \<Rightarrow> Inr (b\<lparr>batch := Some ops\<rparr>, None))
          else
            (case batchWrite ext (SetLegacyAppliedIndexBlind rai lai) (batch b) of
               Inl f \<Rightarrow> Inl f
             | Inr (Inl err) \<Rightarrow>
                 Inr (b, Some (wrapWithNonDeterministicFailure err
                                 ''unable to set applied index''))
             | Inr (Inr ops) \<Rightarrow>
                 (case deref (Stats (state b)) of
                    Inl f \<Rightarrow> Inl f
                  | Inr ms \<Rightarrow>
                      (let ms = ms\<lparr>SysBytes := SysBytes ms +
                                    (legacyAppliedIndexSysBytes ext rai lai -
                                     CalcAppliedIndexSysBytes ext rai lai)\<rparr>;
                           b = b\<lparr>batch := Some ops, state := (state b)\<lparr>Stats := Some ms\<rparr>\<rparr>
                       in case batchWrite ext (SetMVCCStats (Stats (state b))) (batch b) of
                            Inl f \<Rightarrow> Inl f
                          | Inr (Inl err) \<Rightarrow>
                              Inr (b, Some (wrapWithNonDeterministicFailure err
                                              ''unable to update MVCCStats''))
                          | Inr (Inr ops) \<Rightarrow> Inr (b\<lparr>batch := Some ops\<rparr>, None)))))"

definition recordStatsOnCommit :: "replicaStateMachine \<Rightarrow> replicaStateMachine" where
  "recordStatsOnCommit sm =
     (let b = sm_batch sm; st = sm_stats sm in
      sm\<lparr>sm_stats := st\<lparr>entriesProcessed := entriesProcessed st + entries b,
                         numEmptyEntries := numEmptyEntries st + emptyEntries b,
                         batchesProcessed := batchesProcessed st + 1\<rparr>,
         sm_r := emit (sm_r sm) [RecordCommitLatency]\<rparr>)"

definition replicaAppBatch_ApplyToStateMachine ::
  "externals \<Rightarrow> replicaStateMachine \<Rightarrow> replicaStateMachine outcome" where
  "replicaAppBatch_ApplyToStateMachine ext sm =
     (let r = emit (sm_r sm) [ClockUpdate (maxTS (sm_batch sm))] in
      case addAppliedStateKeyToBatch ext (sm_batch sm) of
        Inl f \<Rightarrow> Inl f
      | Inr (b, Some err) \<Rightarrow> Inr (sm\<lparr>sm_r := r, sm_batch := b\<rparr>, Some err)
      | Inr (b, None) \<Rightarrow>
          (case deref (batch b) of
             Inl f \<Rightarrow> Inl f
           | Inr ops \<Rightarrow>
               (case CommitErr ext ops of
                  Some err \<Rightarrow>
                    Inr (sm\<lparr>sm_r := r, sm_batch := b\<rparr>,
                         Some (wrapWithNonDeterministicFailure err
                                 ''unable to commit Raft entry batch''))
                | None \<Rightarrow>
                    (let r = emit r [Commit ops False, BatchClose];
                         b = b\<lparr>batch := None\<rparr> in
                     case deref (Stats (mu_state r)) of
                       Inl f \<Rightarrow> Inl f
                     | Inr prevStats \<Rightarrow>
                         (case deref (Stats (state b)) of
                            Inl f \<Rightarrow> Inl f
                          | Inr newStats \<Rightarrow>
                              (let r = r\<lparr>mu_state := (mu_state r)
                                         \<lparr>RaftAppliedIndex := RaftAppliedIndex (state b),
                                          LeaseAppliedIndex := LeaseAppliedIndex (state b),
                                          Stats := Some newStats\<rparr>\<rparr>;
                                   needsSplitBySize = needsSplitBySizeRLocked ext r;
                                   needsMergeBySize = needsMergeBySizeRLocked ext r;
                                   deltaStats = Subtract newStats prevStats;
                                   r = emit r [AddMVCCStats deltaStats, RecordCount (mutations b)];
                                   r = (if splitQueuePresent ext \<and> needsSplitBySize \<and>
                                           splitQueueThrottle_ShouldProcess ext r
                                        then emit r [SplitQueueMaybeAddAsync] else r);
                                   r = (if mergeQueuePresent ext \<and> needsMergeBySize \<and>
                                           mergeQueueThrottle_ShouldProcess ext r
                                        then emit r [MergeQueueMaybeAddAsync] else r)
                               in Inr (recordStatsOnCommit (sm\<lparr>sm_r := r, sm_batch := b\<rparr>),
                                       None)))))))"


subsection \<open>Side effects after the commit\<close>

text \<open>
  Modelled from the spec: \<^verbatim>\<open>ReplicatedEvalResult.Equal\<close> is generated code outside the
  file; the spec asks that the result ``equals the default''. It is equality with
  \<open>zeroReplicatedEvalResult\<close> here.

  \<^verbatim>\<open>handleNonTrivialReplicatedEvalResult\<close> is given a copy of the result, so what it
  clears in \<^verbatim>\<open>rResult\<close> stays local; but \<^verbatim>\<open>rResult.State\<close> is a pointer it shares
  with the command, and what it clears in the pointed state the command sees. The third
  component below is the pointed state (\<open>None\<close> when the pointer is \<^verbatim>\<open>nil\<close>).
\<close>

text \<open>Lines 912 to 931: truncated state, log size delta, suggested compactions.\<close>

definition handleLogEffects ::
  "externals \<Rightarrow> Replica \<Rightarrow> ReplicatedEvalResult
     \<Rightarrow> Replica \<times> ReplicatedEvalResult \<times> ReplicaState option" where
  "handleLogEffects ext r rResult =
     (let (r, rResult, pointed) =
            (case State rResult of
               None \<Rightarrow> (r, rResult, None)
             | Some st \<Rightarrow>
                 (let (r, rResult, st) =
                        (case TruncatedState st of
                           None \<Rightarrow> (r, rResult, st)
                         | Some t \<Rightarrow>
                             (emit r [HandleTruncatedStateResult t],
                              rResult\<lparr>RaftLogDelta := RaftLogDelta rResult +
                                         handleTruncatedStateResult ext r t\<rparr>,
                              st\<lparr>TruncatedState := None\<rparr>))
                  in (r, rResult\<lparr>State := (if st = zeroReplicaState then None else Some st)\<rparr>,
                      Some st)));
          (r, rResult) =
            (if RaftLogDelta rResult \<noteq> 0
             then (emit r [HandleRaftLogDeltaResult (RaftLogDelta rResult)],
                   rResult\<lparr>RaftLogDelta := 0\<rparr>)
             else (r, rResult));
          (r, rResult) =
            (if SuggestedCompactions rResult \<noteq> []
             then (emit r [HandleSuggestedCompactionsResult (SuggestedCompactions rResult)],
                   rResult\<lparr>SuggestedCompactions := []\<rparr>)
             else (r, rResult))
      in (r, rResult, pointed))"

text \<open>Lines 941 to 985: the effects that may change the replica's state at large.\<close>

definition handleStateEffects ::
  "Replica \<Rightarrow> ReplicatedEvalResult \<Rightarrow> ReplicaState option
     \<Rightarrow> Replica \<times> ReplicatedEvalResult \<times> ReplicaState option" where
  "handleStateEffects r rResult pointed =
     (let (r, rResult) =
            (case Split rResult of
               None \<Rightarrow> (r, rResult)
             | Some split \<Rightarrow> (emit r [HandleSplitResult split], rResult\<lparr>Split := None\<rparr>));
          (r, rResult) =
            (case Merge rResult of
               None \<Rightarrow> (r, rResult)
             | Some merge \<Rightarrow> (emit r [HandleMergeResult merge], rResult\<lparr>Merge := None\<rparr>));
          (r, rResult, pointed) =
            (case State rResult of
               None \<Rightarrow> (r, rResult, pointed)
             | Some st \<Rightarrow>
                 (let (r, st) =
                        (case Desc st of
                           None \<Rightarrow> (r, st)
                         | Some newDesc \<Rightarrow> (emit r [HandleDescResult newDesc], st\<lparr>Desc := None\<rparr>));
                      (r, st) =
                        (case Lease st of
                           None \<Rightarrow> (r, st)
                         | Some newLease \<Rightarrow>
                             (emit r [HandleLeaseResult newLease], st\<lparr>Lease := None\<rparr>));
                      (r, st) =
                        (case GCThreshold st of
                           None \<Rightarrow> (r, st)
                         | Some newThresh \<Rightarrow>
                             (emit r [HandleGCThresholdResult newThresh],
                              st\<lparr>GCThreshold := None\<rparr>));
                      (r, st) =
                        (if UsingAppliedStateKey st
                         then (emit r [HandleUsingAppliedStateKeyResult],
                               st\<lparr>UsingAppliedStateKey := False\<rparr>)
                         else (r, st))
                  in (r, rResult\<lparr>State := (if st = zeroReplicaState then None else Some st)\<rparr>,
                      Some st)));
          (r, rResult) =
            (case ChangeReplicas rResult of
               None \<Rightarrow> (r, rResult)
             | Some chg \<Rightarrow>
                 (emit r [HandleChangeReplicasResult chg], rResult\<lparr>ChangeReplicas := None\<rparr>));
          (r, rResult) =
            (case ComputeChecksum rResult of
               None \<Rightarrow> (r, rResult)
             | Some cs \<Rightarrow>
                 (emit r [HandleComputeChecksumResult cs], rResult\<lparr>ComputeChecksum := None\<rparr>))
      in (r, rResult, pointed))"

definition handleNonTrivialReplicatedEvalResult ::
  "externals \<Rightarrow> Replica \<Rightarrow> ReplicatedEvalResult
     \<Rightarrow> fault + (Replica \<times> ReplicaState option \<times> bool)" where
  "handleNonTrivialReplicatedEvalResult ext r rResult =
     (if rResult = zeroReplicatedEvalResult then
        Inl (Fatal
          ''zero-value ReplicatedEvalResult passed to handleNonTrivialReplicatedEvalResult'')
      else
        (let (r, rResult, pointed) = handleLogEffects ext r rResult;
             shouldAssert = (rResult \<noteq> zeroReplicatedEvalResult) in
         if \<not> shouldAssert then Inr (r, pointed, False)
         else
           (let (r, rResult, pointed) = handleStateEffects r rResult pointed in
            if rResult \<noteq> zeroReplicatedEvalResult then
              Inl (Fatal ''unhandled field in ReplicatedEvalResult: %s'')
            else Inr (r, pointed, True))))"

definition maybeApplyConfChange ::
  "externals \<Rightarrow> Replica \<Rightarrow> replicatedCmd
     \<Rightarrow> fault + (Replica \<times> replicatedCmd \<times> string option)" where
  "maybeApplyConfChange ext r c =
     (case Type (ent c) of
        EntryNormal \<Rightarrow>
          if ChangeReplicas (replicatedResult c) \<noteq> None then
            Inl (Fatal ''unexpected replication change from command %s'')
          else Inr (r, c, None)
      | EntryConfChange \<Rightarrow>
          (let c = (if ChangeReplicas (replicatedResult c) = None then c\<lparr>cc := 0\<rparr> else c) in
           case withRaftGroup ext r of
             Some err \<Rightarrow> Inr (r, c, Some err)
           | None \<Rightarrow> Inr (emit r [ApplyConfChange (cc c)], c, None))
      | EntryOther n \<Rightarrow> Inl (Panic ''unexpected''))"

text \<open>
  Lines 853 to 869 of \<^verbatim>\<open>ApplySideEffects\<close>: the non-trivial effects and the
  assertion that the state on disk is the state in memory. \<^verbatim>\<open>assertStateLocked\<close> is
  outside the file and ends the process when the two differ.
\<close>

definition ApplySideEffects_handle ::
  "externals \<Rightarrow> Replica \<Rightarrow> applyCommittedEntriesStats \<Rightarrow> replicatedCmd
     \<Rightarrow> fault + (Replica \<times> applyCommittedEntriesStats \<times> replicatedCmd)" where
  "ApplySideEffects_handle ext r stats c =
     (if \<not> IsTrivial ext c then
        (case handleNonTrivialReplicatedEvalResult ext r (replicatedResult c) of
           Inl f \<Rightarrow> Inl f
         | Inr (r, pointed, shouldAssert) \<Rightarrow>
             (let c = set_replicatedResult c ((replicatedResult c)\<lparr>State := pointed\<rparr>) in
              if shouldAssert then
                (if assertStateLocked ext r then
                   Inr (emit r [AssertState],
                        stats\<lparr>stateAssertions := stateAssertions stats + 1\<rparr>, c)
                 else Inl (Fatal ''on-disk and in-memory state diverged''))
              else Inr (r, stats, c)))
      else if replicatedResult c \<noteq> zeroReplicatedEvalResult then
        Inl (Fatal ''failed to handle all side-effects of ReplicatedEvalResult: %v'')
      else Inr (r, stats, c))"

text \<open>Lines 882 to 897: mark a local command's proposal as applied.\<close>

definition ApplySideEffects_finish :: "replicatedCmd \<Rightarrow> fault + replicatedCmd" where
  "ApplySideEffects_finish c =
     (if IsLocal c then
        (case deref (proposal c) of
           Inl f \<Rightarrow> Inl f
         | Inr p \<Rightarrow>
             (case (if \<not> Rejected c then
                      (if MaxLeaseIndex (raftCmd c) \<noteq> MaxLeaseIndex (command p) then
                         Inl (Fatal (''finishing proposal with outstanding reproposal '' @
                                     ''at a higher max lease index''))
                       else if applied p then
                         Inl (Fatal
                           ''command already applied: %+v; unexpected successful result'')
                       else Inr ())
                    else Inr ()) of
                Inl f \<Rightarrow> Inl f
              | Inr u \<Rightarrow> Inr (c\<lparr>proposal := Some (p\<lparr>applied := True\<rparr>)\<rparr>)))
      else Inr c)"

text \<open>The deferred unlocks run when the method returns, the last deferred first.\<close>

definition deferred :: "bool \<Rightarrow> nat option \<Rightarrow> Replica \<Rightarrow> Replica" where
  "deferred blockReads unlock r =
     (let r = (if blockReads then emit r [ReadOnlyCmdMuUnlock] else r) in
      case unlock of
        None \<Rightarrow> r
      | Some u \<Rightarrow> emit r [ReleaseSplitMergeLock u])"

text \<open>
  Lines 830 to 853: the read-only lock of a command that blocks reads, the call of
  \<^verbatim>\<open>prepareLocalResult\<close> on the command, and the clearing of the trivial fields. The
  second component tells whether the read-only lock was taken.
\<close>

definition ApplySideEffects_prepare ::
  "externals \<Rightarrow> Replica \<Rightarrow> replicatedCmd \<Rightarrow> fault + (Replica \<times> bool \<times> replicatedCmd)" where
  "ApplySideEffects_prepare ext r c =
     (let blockReads = BlockReads (replicatedResult c);
          c = (if blockReads
               then set_replicatedResult c ((replicatedResult c)\<lparr>BlockReads := False\<rparr>) else c);
          r = (if blockReads then emit r [ReadOnlyCmdMuLock] else r) in
      case prepareLocalResult ext r c of
        Inl f \<Rightarrow> Inl f
      | Inr (r, c) \<Rightarrow>
          Inr (r, blockReads,
               set_replicatedResult c
                 (clearTrivialReplicatedEvalResultFields ext (replicatedResult c))))"

definition replicaStateMachine_ApplySideEffects ::
  "externals \<Rightarrow> replicaStateMachine \<Rightarrow> replicatedCmd
     \<Rightarrow> (replicaStateMachine \<times> replicatedCmd) outcome" where
  "replicaStateMachine_ApplySideEffects ext sm c =
     (let unlock = splitMergeUnlock c in
      case ApplySideEffects_prepare ext (sm_r sm) c of
        Inl f \<Rightarrow> Inl f
      | Inr (r, blockReads, c) \<Rightarrow>
     (case ApplySideEffects_handle ext r (sm_stats sm) c of
        Inl f \<Rightarrow> Inl f
      | Inr (r, stats, c) \<Rightarrow>
          (let r = (if RaftLogDelta (replicatedResult c) = 0
                    then emit r [HandleNoRaftLogDeltaResult] else r);
               r = (case localResult c of
                      None \<Rightarrow> r
                    | Some lr \<Rightarrow> emit r [HandleLocalEvalResult lr]) in
           case maybeApplyConfChange ext r c of
             Inl f \<Rightarrow> Inl f
           | Inr (r, c, Some err) \<Rightarrow>
               Inr ((sm\<lparr>sm_r := deferred blockReads unlock r, sm_stats := stats\<rparr>, c),
                    Some (wrapWithNonDeterministicFailure err ''unable to apply conf change''))
           | Inr (r, c, None) \<Rightarrow>
               (case ApplySideEffects_finish c of
                  Inl f \<Rightarrow> Inl f
                | Inr c \<Rightarrow>
                    Inr ((sm\<lparr>sm_r := deferred blockReads unlock r, sm_stats := stats\<rparr>, c),
                         None)))))"

subsection \<open>The handlers the spec lists\<close>

text \<open>
  The spec (4.5, step 5) lists the handlers of the non-trivial effects, each consuming
  its own field: truncated state (which produces a log size delta), log size delta,
  suggested compactions; then split, merge; descriptor change, lease change,
  GC-threshold change, adoption of the applied-state key; replica configuration change;
  compute-checksum request. The definitions below follow that list, not the code: the
  calls it asks for, in its order, for the fields present in a result. The log size
  delta handled is the one of the result plus the one the truncated state produced.
\<close>

definition spec_logCalls :: "externals \<Rightarrow> Replica \<Rightarrow> ReplicatedEvalResult \<Rightarrow> event list" where
  "spec_logCalls ext r res =
     (let truncated = (case State res of None \<Rightarrow> None | Some st \<Rightarrow> TruncatedState st);
          delta = RaftLogDelta res +
                  (case truncated of
                     None \<Rightarrow> 0
                   | Some t \<Rightarrow> handleTruncatedStateResult ext r t)
      in (case truncated of None \<Rightarrow> [] | Some t \<Rightarrow> [HandleTruncatedStateResult t])
         @ (if delta \<noteq> 0 then [HandleRaftLogDeltaResult delta] else [])
         @ (if SuggestedCompactions res \<noteq> []
            then [HandleSuggestedCompactionsResult (SuggestedCompactions res)] else []))"

definition spec_stateCalls :: "ReplicatedEvalResult \<Rightarrow> event list" where
  "spec_stateCalls res =
     (case Split res of None \<Rightarrow> [] | Some split \<Rightarrow> [HandleSplitResult split])
     @ (case Merge res of None \<Rightarrow> [] | Some merge \<Rightarrow> [HandleMergeResult merge])
     @ (case State res of
          None \<Rightarrow> []
        | Some st \<Rightarrow>
            (case Desc st of None \<Rightarrow> [] | Some d \<Rightarrow> [HandleDescResult d])
            @ (case Lease st of None \<Rightarrow> [] | Some l \<Rightarrow> [HandleLeaseResult l])
            @ (case GCThreshold st of None \<Rightarrow> [] | Some g \<Rightarrow> [HandleGCThresholdResult g])
            @ (if UsingAppliedStateKey st then [HandleUsingAppliedStateKeyResult] else []))
     @ (case ChangeReplicas res of None \<Rightarrow> [] | Some chg \<Rightarrow> [HandleChangeReplicasResult chg])
     @ (case ComputeChecksum res of
          None \<Rightarrow> []
        | Some cs \<Rightarrow> [HandleComputeChecksumResult cs])"

definition spec_handlerCalls ::
  "externals \<Rightarrow> Replica \<Rightarrow> ReplicatedEvalResult \<Rightarrow> event list" where
  "spec_handlerCalls ext r res = spec_logCalls ext r res @ spec_stateCalls res"

subsection \<open>A replica to run the pipeline on\<close>

text \<open>
  Collaborators that never fail: the lease equivalence compares sequence and holder, no
  testing filter is installed, the trivial fields cleared after staging are the stats
  delta and the timestamp, a command is trivial when nothing else is left, preparing
  the local result leaves the command without one, and the migration takes the 28
  bytes of the legacy keys off the system bytes.
\<close>

definition clearTrivial0 :: "ReplicatedEvalResult \<Rightarrow> ReplicatedEvalResult" where
  "clearTrivial0 res = res\<lparr>Timestamp := zeroTimestamp, Delta := zeroMVCCStats\<rparr>"

definition ext0 :: externals where
  "ext0 =
     \<lparr>Equivalent = (\<lambda>a b. Sequence a = Sequence b \<and> Replica a = Replica b),
      TestingApplyFilter = None,
      acquireSplitLock = (\<lambda>r t. Inr (Some t)),
      acquireMergeLock = (\<lambda>r t. Inr (Some t)),
      RocksDBBatchCount = (\<lambda>wb. Inr (int (length wb))),
      batchWriteErr = (\<lambda>w ops. None),
      addSSTablePreApply = (\<lambda>r t i sst. False),
      GetReplica = (\<lambda>r rangeID. Inr (nat rangeID)),
      handleTruncatedStateBelowRaft = (\<lambda>old new ops. Inr True),
      CommitErr = (\<lambda>ops. None),
      legacyAppliedIndexSysBytes = (\<lambda>rai lai. 28),
      CalcAppliedIndexSysBytes = (\<lambda>rai lai. 28),
      migratedStats = (\<lambda>ms. ms\<lparr>SysBytes := SysBytes ms - 28\<rparr>),
      needsSplitBySizeRLocked = (\<lambda>r. False),
      needsMergeBySizeRLocked = (\<lambda>r. False),
      splitQueuePresent = True,
      mergeQueuePresent = True,
      splitQueueThrottle_ShouldProcess = (\<lambda>r. True),
      mergeQueueThrottle_ShouldProcess = (\<lambda>r. True),
      clearTrivialReplicatedEvalResultFields = clearTrivial0,
      IsTrivial = (\<lambda>c. clearTrivial0 (replicatedResult c) = zeroReplicatedEvalResult),
      prepareLocalResult = (\<lambda>r c. Inr (r, c\<lparr>localResult := None\<rparr>)),
      handleTruncatedStateResult = (\<lambda>r t. 0),
      assertStateLocked = (\<lambda>r. True),
      withRaftGroup = (\<lambda>r. None)\<rparr>"

text \<open>
  The state of the spec's scenarios: applied index 10, lease applied index 100, lease
  sequence 5, GC threshold 50; and its command at index 11 with lease index 101,
  timestamp 60 and seven more live bytes.
\<close>

definition tsAt :: "int \<Rightarrow> Timestamp" where
  "tsAt w = \<lparr>WallTime = w, Logical = 0\<rparr>"

definition lease0 :: Lease where
  "lease0 = \<lparr>Sequence = 5, ProposedTS = Some (tsAt 40), Replica = \<lparr>StoreID = 1\<rparr>\<rparr>"

definition desc0 :: RangeDescriptor where
  "desc0 = \<lparr>RangeID = 7, InternalReplicas = [\<lparr>StoreID = 1\<rparr>, \<lparr>StoreID = 2\<rparr>],
            NextReplicaID = 3\<rparr>"

definition state0 :: ReplicaState where
  "state0 =
     \<lparr>RaftAppliedIndex = 10, LeaseAppliedIndex = 100, Desc = Some desc0,
      Lease = Some lease0, TruncatedState = None, GCThreshold = Some (tsAt 50),
      Stats = Some zeroMVCCStats, UsingAppliedStateKey = True\<rparr>"

definition replica0 :: Replica where
  "replica0 = \<lparr>mu_state = state0, raftLogSizeTrusted = True, r_RangeID = 7, r_StoreID = 1,
               trace = []\<rparr>"

definition batch0 :: replicaAppBatch where
  "batch0 = \<lparr>batch = Some [], state = state0, maxTS = zeroTimestamp,
             migrateToAppliedStateKey = False, entries = 0, emptyEntries = 0,
             mutations = 0\<rparr>"

definition sm0 :: replicaStateMachine where
  "sm0 = \<lparr>sm_r = replica0, sm_batch = batch0,
          sm_ephemeralBatch = \<lparr>eph_state = state0\<rparr>,
          sm_stats = \<lparr>batchesProcessed = 0, entriesProcessed = 0, stateAssertions = 0,
                      numEmptyEntries = 0\<rparr>\<rparr>"

definition raftCmd0 :: RaftCommand where
  "raftCmd0 =
     \<lparr>ProposerLeaseSequence = 5, DeprecatedProposerLease = None,
      ProposerReplica = \<lparr>StoreID = 1\<rparr>, MaxLeaseIndex = 101,
      ReplicatedEvalResult = zeroReplicatedEvalResult
        \<lparr>Timestamp := tsAt 60, Delta := zeroMVCCStats\<lparr>LiveBytes := 7\<rparr>\<rparr>,
      WriteBatch = Some [1, 2, 3], LogicalOpLog = Some [4]\<rparr>"

definition cmd0 :: replicatedCmd where
  "cmd0 =
     \<lparr>ent = \<lparr>Term = 1, Index = 11, Type = EntryNormal, Data = [9]\<rparr>,
      idKey = ''a'', raftCmd = raftCmd0, proposal = None, leaseIndex = 0,
      proposalRetry = proposalNoReevaluation, forcedErr = None,
      splitMergeUnlock = None, localResult = None, cc = 0\<rparr>"

definition leaseReq0 :: RaftCommand where
  "leaseReq0 =
     raftCmd0\<lparr>MaxLeaseIndex := 3,
       ReplicatedEvalResult := zeroReplicatedEvalResult
         \<lparr>IsLeaseRequest := True, Timestamp := tsAt 60,
          State := Some (zeroReplicaState
            \<lparr>Lease := Some \<lparr>Sequence = 6, ProposedTS = Some (tsAt 55),
                              Replica = \<lparr>StoreID = 2\<rparr>\<rparr>\<rparr>)\<rparr>\<rparr>"

text \<open>
  The batch after the command of the first scenario has been staged; a log truncation, a
  split, and a local command that was rejected beneath consensus, not applied yet and
  reproposed at a higher lease index.
\<close>

definition smStaged :: replicaStateMachine where
  "smStaged =
     sm0\<lparr>sm_batch := batch0
       \<lparr>batch := Some [ApplyBatchRepr [1, 2, 3]],
        state := state0\<lparr>RaftAppliedIndex := 11, LeaseAppliedIndex := 101,
                        Stats := Some (zeroMVCCStats\<lparr>LiveBytes := 7\<rparr>)\<rparr>,
        maxTS := tsAt 60, entries := 1, mutations := 3\<rparr>\<rparr>"

definition cmdTruncate :: replicatedCmd where
  "cmdTruncate =
     cmd0\<lparr>raftCmd := raftCmd0
       \<lparr>ReplicatedEvalResult := zeroReplicatedEvalResult
          \<lparr>State := Some (zeroReplicaState\<lparr>TruncatedState := Some 3\<rparr>), RaftLogDelta := 5\<rparr>,
        WriteBatch := None, LogicalOpLog := None\<rparr>\<rparr>"

definition cmdSplit :: replicatedCmd where
  "cmdSplit =
     cmd0\<lparr>raftCmd := raftCmd0
       \<lparr>ReplicatedEvalResult := zeroReplicatedEvalResult\<lparr>Split := Some \<lparr>SplitTrigger = 1\<rparr>\<rparr>,
        WriteBatch := None, LogicalOpLog := None\<rparr>\<rparr>"

definition cmdRejectedLocal :: replicatedCmd where
  "cmdRejectedLocal =
     cmd0\<lparr>raftCmd := raftCmd0\<lparr>ReplicatedEvalResult := zeroReplicatedEvalResult,
                               WriteBatch := None, LogicalOpLog := None\<rparr>,
          proposal := Some \<lparr>command = raftCmd0\<lparr>MaxLeaseIndex := 200\<rparr>, applied = False\<rparr>,
          leaseIndex := 100,
          forcedErr := Some (NotLeaseHolderError (Some lease0) 1 (Some desc0) 4)\<rparr>"

text \<open>
  The staged batch under the legacy layout, with an engine whose blind write of the
  applied index takes 30 bytes where 28 are calculated.
\<close>

definition smLegacy :: replicaStateMachine where
  "smLegacy =
     smStaged\<lparr>sm_batch := (sm_batch smStaged)
       \<lparr>state := (state (sm_batch smStaged))\<lparr>UsingAppliedStateKey := False\<rparr>\<rparr>\<rparr>"

definition extLegacy :: externals where
  "extLegacy = ext0\<lparr>legacyAppliedIndexSysBytes := (\<lambda>rai lai. 30)\<rparr>"

section \<open>Properties\<close>

lemmas ex_defs =
  ext0_def state0_def lease0_def desc0_def replica0_def batch0_def sm0_def raftCmd0_def
  cmd0_def leaseReq0_def smStaged_def cmdTruncate_def cmdSplit_def cmdRejectedLocal_def
  smLegacy_def extLegacy_def
  tsAt_def zeroReplicatedEvalResult_def zeroMVCCStats_def
  zeroTimestamp_def zeroLease_def zeroReplicaDescriptor_def zeroReplicaState_def
  clearTrivial0_def

lemmas check_defs =
  checkForcedErr_def leaseMismatchOf_def deref_def Less_def GetReplicaDescriptor_def
  shouldApplyCommand_def IsLocal_def Rejected_def replicatedResult_def
  set_replicatedResult_def reasonOfInt_def

lemmas stage_defs =
  replicaAppBatch_Stage_def Stage_staged_def Stage_check_def Stage_lock_def andThen_def
  maybeAcquireSplitMergeLock_def batchWrite_def migrateReplicatedResult_def
  stageWriteBatch_def trigger_AddSSTable_def trigger_Split_def trigger_Merge_def
  trigger_TruncatedState_def trigger_LogicalOpLog_def runPreApplyTriggers_def
  stageTrivialReplicatedEvalResult_def Forward_def Add_def ToStats_def ToStatsDelta_def
  emit_def

lemmas commit_defs =
  replicaAppBatch_ApplyToStateMachine_def addAppliedStateKeyToBatch_def
  recordStatsOnCommit_def batchWrite_def andThen_def deref_def emit_def Subtract_def

lemmas side_defs =
  replicaStateMachine_ApplySideEffects_def ApplySideEffects_prepare_def
  ApplySideEffects_handle_def ApplySideEffects_finish_def
  handleNonTrivialReplicatedEvalResult_def handleLogEffects_def handleStateEffects_def
  maybeApplyConfChange_def deferred_def emit_def deref_def

subsection \<open>The force-error check\<close>

text \<open>
  C1, as the spec states it: a non-lease command with a non-empty id, proposed under the
  current lease, is accepted if and only if the lease applied index is below its
  \<^verbatim>\<open>MaxLeaseIndex\<close>. The check of the GC threshold that follows makes this false: in
  the state of the spec's fourth scenario (threshold 70, timestamp 60) the lease
  applied index 100 is below the command's 101 and the command is rejected all the same,
  with the batch-timestamp-before-GC error.
\<close>

theorem checkForcedErr_ordering_counterexample:
  "LeaseAppliedIndex (state0\<lparr>GCThreshold := Some (tsAt 70)\<rparr>) < MaxLeaseIndex raftCmd0 \<and>
   checkForcedErr ext0 ''a'' raftCmd0 True (state0\<lparr>GCThreshold := Some (tsAt 70)\<rparr>)
     = Inr (101, proposalNoReevaluation,
            Some (BatchTimestampBeforeGCError (tsAt 60) (tsAt 70)))"
  by (simp add: check_defs ex_defs)

text \<open>
  C1, amended: for a non-lease command with a non-empty id whose proposer lease matches
  the current lease, \<^verbatim>\<open>checkForcedErr\<close> accepts the command if and only if the lease
  applied index is strictly below the command's \<^verbatim>\<open>MaxLeaseIndex\<close> and the GC threshold
  is below the command's timestamp; on acceptance the new lease index is
  \<^verbatim>\<open>MaxLeaseIndex\<close>; and when the lease applied index is not below \<^verbatim>\<open>MaxLeaseIndex\<close>
  it returns the illegal-lease-index error with the lease index unchanged and the retry
  flag set exactly when the command is local.
\<close>

theorem checkForcedErr_ordering:
  assumes "key \<noteq> []"
    and "\<not> IsLeaseRequest (ReplicatedEvalResult rcmd)"
    and "Lease replicaState = Some cur"
    and "leaseMismatchOf ext rcmd cur False zeroLease = Inr False"
    and "GCThreshold replicaState = Some thresh"
  shows "((\<exists>li retry. checkForcedErr ext key rcmd isLocal replicaState = Inr (li, retry, None))
          \<longleftrightarrow> (LeaseAppliedIndex replicaState < MaxLeaseIndex rcmd
                \<and> Less thresh (Timestamp (ReplicatedEvalResult rcmd))))
       \<and> (LeaseAppliedIndex replicaState < MaxLeaseIndex rcmd
            \<and> Less thresh (Timestamp (ReplicatedEvalResult rcmd))
          \<longrightarrow> checkForcedErr ext key rcmd isLocal replicaState
                = Inr (MaxLeaseIndex rcmd, proposalNoReevaluation, None))
       \<and> (\<not> LeaseAppliedIndex replicaState < MaxLeaseIndex rcmd
          \<longrightarrow> checkForcedErr ext key rcmd isLocal replicaState
                = Inr (LeaseAppliedIndex replicaState,
                       if isLocal then proposalIllegalLeaseIndex else proposalNoReevaluation,
                       Some (Errorf ''command observed at lease index %d, but required < %d''
                               [LeaseAppliedIndex replicaState, MaxLeaseIndex rcmd])))"
  using assms by (auto simp: checkForcedErr_def deref_def Let_def)

theorem checkForcedErr_ordering_witness:
  "checkForcedErr ext0 ''a'' raftCmd0 True state0 = Inr (101, proposalNoReevaluation, None)
   \<and> checkForcedErr ext0 ''a'' (raftCmd0\<lparr>MaxLeaseIndex := 100\<rparr>) True state0
       = Inr (100, proposalIllegalLeaseIndex,
              Some (Errorf ''command observed at lease index %d, but required < %d''
                      [100, 100]))
   \<and> checkForcedErr ext0 ''a'' (raftCmd0\<lparr>MaxLeaseIndex := 100\<rparr>) False state0
       = Inr (100, proposalNoReevaluation,
              Some (Errorf ''command observed at lease index %d, but required < %d''
                      [100, 100]))"
proof -
  let ?late = "raftCmd0\<lparr>MaxLeaseIndex := 100\<rparr>"
  have k: "''a'' \<noteq> []" by simp
  have nl: "\<not> IsLeaseRequest (ReplicatedEvalResult raftCmd0)"
    and nl': "\<not> IsLeaseRequest (ReplicatedEvalResult ?late)"
    by (simp_all add: ex_defs)
  have l: "Lease state0 = Some lease0" by (simp add: state0_def)
  have m: "leaseMismatchOf ext0 raftCmd0 lease0 False zeroLease = Inr False"
    and m': "leaseMismatchOf ext0 ?late lease0 False zeroLease = Inr False"
    by (simp_all add: leaseMismatchOf_def ex_defs)
  have g: "GCThreshold state0 = Some (tsAt 50)" by (simp add: state0_def)
  have a: "LeaseAppliedIndex state0 < MaxLeaseIndex raftCmd0
           \<and> Less (tsAt 50) (Timestamp (ReplicatedEvalResult raftCmd0))"
    by (simp add: ex_defs Less_def)
  have b: "\<not> LeaseAppliedIndex state0 < MaxLeaseIndex ?late"
    by (simp add: ex_defs)
  from checkForcedErr_ordering [OF k nl l m g, of True] a
  have 1: "checkForcedErr ext0 ''a'' raftCmd0 True state0
             = Inr (MaxLeaseIndex raftCmd0, proposalNoReevaluation, None)"
    by blast
  from checkForcedErr_ordering [OF k nl' l m' g, of True] b
  have 2: "checkForcedErr ext0 ''a'' ?late True state0
      = Inr (LeaseAppliedIndex state0, proposalIllegalLeaseIndex,
          Some (Errorf ''command observed at lease index %d, but required < %d''
                  [LeaseAppliedIndex state0, MaxLeaseIndex ?late]))"
    by simp
  from checkForcedErr_ordering [OF k nl' l m' g, of False] b
  have 3: "checkForcedErr ext0 ''a'' ?late False state0
      = Inr (LeaseAppliedIndex state0, proposalNoReevaluation,
          Some (Errorf ''command observed at lease index %d, but required < %d''
                  [LeaseAppliedIndex state0, MaxLeaseIndex ?late]))"
    by simp
  show ?thesis using 1 2 3 by (simp add: state0_def raftCmd0_def)
qed

text \<open>
  C8: for a lease request, whatever \<^verbatim>\<open>checkForcedErr\<close> returns (acceptance or
  rejection), the new lease index is the lease applied index of the state: a lease
  request never advances it. The command's \<^verbatim>\<open>MaxLeaseIndex\<close> is ignored: changing it
  changes nothing of the outcome. And the check does return when the pointers it
  dereferences are set.
\<close>

theorem checkForcedErr_lease_request:
  assumes "IsLeaseRequest (ReplicatedEvalResult rcmd)"
  shows "(\<forall>li retry err. checkForcedErr ext key rcmd isLocal rs = Inr (li, retry, err)
            \<longrightarrow> li = LeaseAppliedIndex rs)
       \<and> checkForcedErr ext key (rcmd\<lparr>MaxLeaseIndex := m\<rparr>) isLocal rs
           = checkForcedErr ext key rcmd isLocal rs
       \<and> (State (ReplicatedEvalResult rcmd) = Some st \<and> Lease st = Some req
            \<and> Lease rs = Some cur \<and> ProposedTS cur \<noteq> None \<and> Desc rs \<noteq> None
            \<and> GCThreshold rs \<noteq> None
          \<longrightarrow> (\<exists>retry err. checkForcedErr ext key rcmd isLocal rs
                  = Inr (LeaseAppliedIndex rs, retry, err)))"
proof (intro conjI allI impI)
  fix li retry err
  assume "checkForcedErr ext key rcmd isLocal rs = Inr (li, retry, err)"
  with assms show "li = LeaseAppliedIndex rs"
    by (auto simp: checkForcedErr_def deref_def Let_def
             split: option.splits sum.splits if_splits)
next
  have lm: "\<And>cur b rq. leaseMismatchOf ext (rcmd\<lparr>MaxLeaseIndex := m\<rparr>) cur b rq
              = leaseMismatchOf ext rcmd cur b rq"
    by (simp add: leaseMismatchOf_def Let_def cong: option.case_cong)
  show "checkForcedErr ext key (rcmd\<lparr>MaxLeaseIndex := m\<rparr>) isLocal rs
          = checkForcedErr ext key rcmd isLocal rs"
    using assms
    by (simp add: checkForcedErr_def lm Let_def
             cong: sum.case_cong option.case_cong if_cong)
next
  assume "State (ReplicatedEvalResult rcmd) = Some st \<and> Lease st = Some req
            \<and> Lease rs = Some cur \<and> ProposedTS cur \<noteq> None \<and> Desc rs \<noteq> None
            \<and> GCThreshold rs \<noteq> None"
  with assms show "\<exists>retry err. checkForcedErr ext key rcmd isLocal rs
                     = Inr (LeaseAppliedIndex rs, retry, err)"
    by (auto simp: checkForcedErr_def leaseMismatchOf_def deref_def Let_def
             split: option.splits)
qed

theorem checkForcedErr_lease_request_witness:
  "IsLeaseRequest (ReplicatedEvalResult leaseReq0)
   \<and> checkForcedErr ext0 ''a'' leaseReq0 False state0 = Inr (100, proposalNoReevaluation, None)
   \<and> LeaseAppliedIndex state0 = 100
   \<and> checkForcedErr ext0 ''a'' (leaseReq0\<lparr>MaxLeaseIndex := 500\<rparr>) False state0
       = Inr (100, proposalNoReevaluation, None)"
proof -
  have lr: "IsLeaseRequest (ReplicatedEvalResult leaseReq0)" by (simp add: ex_defs)
  have run: "checkForcedErr ext0 ''a'' leaseReq0 False state0
               = Inr (100, proposalNoReevaluation, None)"
    by (simp add: check_defs ex_defs)
  from checkForcedErr_lease_request [OF lr, of ext0 "''a''" False state0 500] run
  have "100 = LeaseAppliedIndex state0
        \<and> checkForcedErr ext0 ''a'' (leaseReq0\<lparr>MaxLeaseIndex := 500\<rparr>) False state0
            = Inr (100, proposalNoReevaluation, None)"
    by simp
  with lr run show ?thesis by simp
qed

subsection \<open>Staging\<close>

text \<open>
  C3: \<^verbatim>\<open>Stage\<close> on an application batch returns a non-deterministic failure and leaves
  the state machine, its batch included, as it was whenever the entry index of the
  command is zero or is not the batch state's raft applied index plus one. So for
  every command staged with success, the raft applied index before plus one is the
  command's entry index.
\<close>

theorem Stage_index_precondition:
  "(Index (ent c) = 0 \<or> Index (ent c) \<noteq> RaftAppliedIndex (state (sm_batch sm)) + 1
      \<longrightarrow> (\<exists>fmt args. replicaAppBatch_Stage ext sm c
                = Inr ((sm, c), Some (makeNonDeterministicFailure fmt args))))
   \<and> (\<forall>sm' c'. replicaAppBatch_Stage ext sm c = Inr ((sm', c'), None)
        \<longrightarrow> Index (ent c) \<noteq> 0
            \<and> RaftAppliedIndex (state (sm_batch sm)) + 1 = Index (ent c))"
  by (auto simp: replicaAppBatch_Stage_def)

theorem Stage_index_precondition_witness:
  "(\<exists>fmt args. replicaAppBatch_Stage ext0 sm0 (cmd0\<lparr>ent := (ent cmd0)\<lparr>Index := 12\<rparr>\<rparr>)
      = Inr ((sm0, cmd0\<lparr>ent := (ent cmd0)\<lparr>Index := 12\<rparr>\<rparr>),
             Some (makeNonDeterministicFailure fmt args)))
   \<and> (\<exists>sm' c'. replicaAppBatch_Stage ext0 sm0 cmd0 = Inr ((sm', c'), None))
   \<and> RaftAppliedIndex (state (sm_batch sm0)) + 1 = Index (ent cmd0)"
proof -
  let ?gap = "cmd0\<lparr>ent := (ent cmd0)\<lparr>Index := 12\<rparr>\<rparr>"
  have "Index (ent ?gap) = 0 \<or> Index (ent ?gap) \<noteq> RaftAppliedIndex (state (sm_batch sm0)) + 1"
    by (simp add: ex_defs)
  with Stage_index_precondition [of ?gap sm0 ext0]
  have 1: "\<exists>fmt args. replicaAppBatch_Stage ext0 sm0 ?gap
             = Inr ((sm0, ?gap), Some (makeNonDeterministicFailure fmt args))"
    by blast
  have 2: "\<exists>sm' c'. replicaAppBatch_Stage ext0 sm0 cmd0 = Inr ((sm', c'), None)"
    by (simp add: stage_defs check_defs ex_defs Let_def)
  with Stage_index_precondition [of cmd0 sm0 ext0]
  have 3: "RaftAppliedIndex (state (sm_batch sm0)) + 1 = Index (ent cmd0)"
    by blast
  from 1 2 3 show ?thesis by blast
qed

lemma checkForcedErr_rejected_index:
  "checkForcedErr ext key rcmd isLocal rs = Inr (li, retry, Some err) \<Longrightarrow>
     (if \<not> IsLeaseRequest (ReplicatedEvalResult rcmd)
          \<and> (\<exists>t th. err = BatchTimestampBeforeGCError t th)
      then li = MaxLeaseIndex rcmd \<and> LeaseAppliedIndex rs < MaxLeaseIndex rcmd
      else li = LeaseAppliedIndex rs)"
  by (auto simp: checkForcedErr_def deref_def Let_def
           split: option.splits sum.splits if_splits)

lemma shouldApplyCommand_rejected:
  "checkForcedErr ext (idKey c) (raftCmd c) (IsLocal c) rs = Inr (li, retry, Some err) \<Longrightarrow>
   shouldApplyCommand ext r c rs
     = Inr (c\<lparr>leaseIndex := li, proposalRetry := retry, forcedErr := Some err\<rparr>, False)"
  by (simp add: shouldApplyCommand_def Let_def split: option.splits)

lemma Add_zero: "Add ms (ToStats zeroMVCCStats) = ms"
  by (simp add: Add_def ToStats_def zeroMVCCStats_def)

lemma word_less_nonzero: "(a :: uint64) < b \<Longrightarrow> b \<noteq> 0"
  by auto

text \<open>
  C2, as the spec states it: a command rejected by the force-error check leaves the
  batch's lease applied index unchanged. It does not when the rejection is the one of
  the GC threshold and the command is not a lease request: the check has then already
  taken the command's \<^verbatim>\<open>MaxLeaseIndex\<close> as the new lease index, and staging writes it into
  the batch state. In the spec's fourth scenario the command is rejected and the batch's
  lease applied index goes from 100 to 101.
\<close>

theorem Stage_rejected_counterexample:
  "LeaseAppliedIndex (state (sm_batch
      (sm0\<lparr>sm_batch := batch0\<lparr>state := state0\<lparr>GCThreshold := Some (tsAt 70)\<rparr>\<rparr>\<rparr>))) = 100
   \<and> (case replicaAppBatch_Stage ext0
             (sm0\<lparr>sm_batch := batch0\<lparr>state := state0\<lparr>GCThreshold := Some (tsAt 70)\<rparr>\<rparr>\<rparr>)
             cmd0 of
         Inr ((sm', c'), None) \<Rightarrow>
           forcedErr c' = Some (BatchTimestampBeforeGCError (tsAt 60) (tsAt 70))
           \<and> replicatedResult c' = zeroReplicatedEvalResult
           \<and> LeaseAppliedIndex (state (sm_batch sm')) = 101
       | _ \<Rightarrow> False)"
  by (simp add: stage_defs check_defs ex_defs Let_def)

text \<open>
  C2, amended: for every command that the force-error check rejects during \<^verbatim>\<open>Stage\<close>
  on an application batch (with its stats set), \<^verbatim>\<open>Stage\<close> succeeds; the command's
  replicated result, write batch and logical op log are cleared; the batch's raft
  applied index advances to the command's entry index; the MVCC stats, the engine batch
  and the replica are left unchanged; and the batch's lease applied index is left
  unchanged, except when a command that is not a lease request is rejected by the
  batch-timestamp-before-GC check, where it becomes the command's \<^verbatim>\<open>MaxLeaseIndex\<close>.
  A lease request rejected by the GC check leaves the lease applied index as it was.
\<close>

theorem Stage_rejected:
  assumes idx: "Index (ent c) \<noteq> 0"
      "Index (ent c) = RaftAppliedIndex (state (sm_batch sm)) + 1"
    and rej: "checkForcedErr ext (idKey c) (raftCmd c) (IsLocal c) (state (sm_batch sm))
                = Inr (li, retry, Some err)"
    and st: "Stats (state (sm_batch sm)) = Some ms"
  shows "\<exists>sm' c'. replicaAppBatch_Stage ext sm c = Inr ((sm', c'), None)
     \<and> forcedErr c' = Some err
     \<and> replicatedResult c' = zeroReplicatedEvalResult
     \<and> WriteBatch (raftCmd c') = None \<and> LogicalOpLog (raftCmd c') = None
     \<and> RaftAppliedIndex (state (sm_batch sm')) = Index (ent c)
     \<and> Stats (state (sm_batch sm')) = Some ms
     \<and> LeaseAppliedIndex (state (sm_batch sm'))
         = (if \<not> IsLeaseRequest (ReplicatedEvalResult (raftCmd c))
               \<and> (\<exists>t th. err = BatchTimestampBeforeGCError t th)
            then MaxLeaseIndex (raftCmd c)
            else LeaseAppliedIndex (state (sm_batch sm)))
     \<and> batch (sm_batch sm') = batch (sm_batch sm) \<and> sm_r sm' = sm_r sm"
proof -
  let ?gc = "\<not> IsLeaseRequest (ReplicatedEvalResult (raftCmd c))
               \<and> (\<exists>t th. err = BatchTimestampBeforeGCError t th)"
  from checkForcedErr_rejected_index [OF rej]
  have li: "(if li = 0 then LeaseAppliedIndex (state (sm_batch sm)) else li)
              = (if ?gc then MaxLeaseIndex (raftCmd c)
                 else LeaseAppliedIndex (state (sm_batch sm)))"
    using word_less_nonzero by (auto split: if_splits)
  have run: "\<exists>sm' c'. replicaAppBatch_Stage ext sm c = Inr ((sm', c'), None)
     \<and> forcedErr c' = Some err
     \<and> replicatedResult c' = zeroReplicatedEvalResult
     \<and> WriteBatch (raftCmd c') = None \<and> LogicalOpLog (raftCmd c') = None
     \<and> RaftAppliedIndex (state (sm_batch sm')) = Index (ent c)
     \<and> Stats (state (sm_batch sm')) = Some ms
     \<and> LeaseAppliedIndex (state (sm_batch sm'))
         = (if li = 0 then LeaseAppliedIndex (state (sm_batch sm)) else li)
     \<and> batch (sm_batch sm') = batch (sm_batch sm) \<and> sm_r sm' = sm_r sm"
    using idx st
    by (simp add: replicaAppBatch_Stage_def Stage_staged_def Stage_check_def
          shouldApplyCommand_rejected [OF rej] Stage_lock_def andThen_def
          maybeAcquireSplitMergeLock_def migrateReplicatedResult_def stageWriteBatch_def
          runPreApplyTriggers_def trigger_AddSSTable_def trigger_Split_def
          trigger_Merge_def trigger_TruncatedState_def trigger_LogicalOpLog_def
          stageTrivialReplicatedEvalResult_def replicatedResult_def
          set_replicatedResult_def deref_def Add_zero Let_def zeroReplicatedEvalResult_def)
  with li show ?thesis by metis
qed

text \<open>
  Three rejected commands. The spec's second scenario: the command was proposed under
  lease 4, the current lease is 5; the raft applied index goes to 11, the lease applied
  index stays at 100 and the stats are unchanged. A lease request with
  \<^verbatim>\<open>MaxLeaseIndex\<close> 3 and timestamp 60 under GC threshold 70: the lease applied index
  stays at 100. The spec's fourth scenario, a write with \<^verbatim>\<open>MaxLeaseIndex\<close> 101 and
  timestamp 60 under GC threshold 70: the lease applied index becomes 101.
\<close>

theorem Stage_rejected_witness:
  "(\<exists>sm' c'. replicaAppBatch_Stage ext0 sm0
               (cmd0\<lparr>raftCmd := raftCmd0\<lparr>ProposerLeaseSequence := 4\<rparr>\<rparr>)
             = Inr ((sm', c'), None)
     \<and> forcedErr c' = Some (NotLeaseHolderError (Some lease0) 1 (Some desc0) 4)
     \<and> replicatedResult c' = zeroReplicatedEvalResult
     \<and> WriteBatch (raftCmd c') = None \<and> LogicalOpLog (raftCmd c') = None
     \<and> RaftAppliedIndex (state (sm_batch sm')) = 11
     \<and> Stats (state (sm_batch sm')) = Some zeroMVCCStats
     \<and> LeaseAppliedIndex (state (sm_batch sm')) = 100)
   \<and> (\<exists>sm' c'. replicaAppBatch_Stage ext0
               (sm0\<lparr>sm_batch := batch0\<lparr>state := state0\<lparr>GCThreshold := Some (tsAt 70)\<rparr>\<rparr>\<rparr>)
               (cmd0\<lparr>raftCmd := leaseReq0\<rparr>)
             = Inr ((sm', c'), None)
     \<and> forcedErr c' = Some (BatchTimestampBeforeGCError (tsAt 60) (tsAt 70))
     \<and> RaftAppliedIndex (state (sm_batch sm')) = 11
     \<and> LeaseAppliedIndex (state (sm_batch sm')) = 100)
   \<and> MaxLeaseIndex leaseReq0 = 3
   \<and> (\<exists>sm' c'. replicaAppBatch_Stage ext0
               (sm0\<lparr>sm_batch := batch0\<lparr>state := state0\<lparr>GCThreshold := Some (tsAt 70)\<rparr>\<rparr>\<rparr>)
               cmd0
             = Inr ((sm', c'), None)
     \<and> forcedErr c' = Some (BatchTimestampBeforeGCError (tsAt 60) (tsAt 70))
     \<and> RaftAppliedIndex (state (sm_batch sm')) = 11
     \<and> LeaseAppliedIndex (state (sm_batch sm')) = 101)"
proof -
  let ?c = "cmd0\<lparr>raftCmd := raftCmd0\<lparr>ProposerLeaseSequence := 4\<rparr>\<rparr>"
  let ?gc = "sm0\<lparr>sm_batch := batch0\<lparr>state := state0\<lparr>GCThreshold := Some (tsAt 70)\<rparr>\<rparr>\<rparr>"
  let ?l = "cmd0\<lparr>raftCmd := leaseReq0\<rparr>"
  have i: "Index (ent ?c) \<noteq> 0" "Index (ent ?c) = RaftAppliedIndex (state (sm_batch sm0)) + 1"
    "Index (ent ?l) \<noteq> 0" "Index (ent ?l) = RaftAppliedIndex (state (sm_batch ?gc)) + 1"
    "Index (ent cmd0) \<noteq> 0" "Index (ent cmd0) = RaftAppliedIndex (state (sm_batch ?gc)) + 1"
    by (simp_all add: ex_defs)
  have rej1: "checkForcedErr ext0 (idKey ?c) (raftCmd ?c) (IsLocal ?c) (state (sm_batch sm0))
               = Inr (100, proposalNoReevaluation,
                      Some (NotLeaseHolderError (Some lease0) 1 (Some desc0) 4))"
    and rej2: "checkForcedErr ext0 (idKey ?l) (raftCmd ?l) (IsLocal ?l) (state (sm_batch ?gc))
               = Inr (100, proposalNoReevaluation,
                      Some (BatchTimestampBeforeGCError (tsAt 60) (tsAt 70)))"
    and rej3: "checkForcedErr ext0 (idKey cmd0) (raftCmd cmd0) (IsLocal cmd0) (state (sm_batch ?gc))
               = Inr (101, proposalNoReevaluation,
                      Some (BatchTimestampBeforeGCError (tsAt 60) (tsAt 70)))"
    by (simp_all add: check_defs ex_defs)
  have st: "Stats (state (sm_batch sm0)) = Some zeroMVCCStats"
     "Stats (state (sm_batch ?gc)) = Some zeroMVCCStats"
    by (simp_all add: ex_defs)
  have more: "Index (ent ?c) = 11" "LeaseAppliedIndex (state (sm_batch sm0)) = 100"
     "Index (ent ?l) = 11" "LeaseAppliedIndex (state (sm_batch ?gc)) = 100"
     "IsLeaseRequest (ReplicatedEvalResult (raftCmd ?l))"
     "\<not> IsLeaseRequest (ReplicatedEvalResult (raftCmd cmd0))"
     "MaxLeaseIndex (raftCmd cmd0) = 101" "Index (ent cmd0) = 11"
    by (simp_all add: ex_defs)
  from Stage_rejected [OF i(1) i(2) rej1 st(1)] more
  have 1: "\<exists>sm' c'. replicaAppBatch_Stage ext0 sm0 ?c = Inr ((sm', c'), None)
     \<and> forcedErr c' = Some (NotLeaseHolderError (Some lease0) 1 (Some desc0) 4)
     \<and> replicatedResult c' = zeroReplicatedEvalResult
     \<and> WriteBatch (raftCmd c') = None \<and> LogicalOpLog (raftCmd c') = None
     \<and> RaftAppliedIndex (state (sm_batch sm')) = 11
     \<and> Stats (state (sm_batch sm')) = Some zeroMVCCStats
     \<and> LeaseAppliedIndex (state (sm_batch sm')) = 100"
    by auto
  from Stage_rejected [OF i(3) i(4) rej2 st(2)] more
  have 2: "\<exists>sm' c'. replicaAppBatch_Stage ext0 ?gc ?l = Inr ((sm', c'), None)
     \<and> forcedErr c' = Some (BatchTimestampBeforeGCError (tsAt 60) (tsAt 70))
     \<and> RaftAppliedIndex (state (sm_batch sm')) = 11
     \<and> LeaseAppliedIndex (state (sm_batch sm')) = 100"
    by auto
  have m: "MaxLeaseIndex leaseReq0 = 3" by (simp add: ex_defs)
  from Stage_rejected [OF i(5) i(6) rej3 st(2)] more
  have 3: "\<exists>sm' c'. replicaAppBatch_Stage ext0 ?gc cmd0 = Inr ((sm', c'), None)
     \<and> forcedErr c' = Some (BatchTimestampBeforeGCError (tsAt 60) (tsAt 70))
     \<and> RaftAppliedIndex (state (sm_batch sm')) = 11
     \<and> LeaseAppliedIndex (state (sm_batch sm')) = 101"
    by auto
  from 1 2 m 3 show ?thesis by blast
qed

subsection \<open>The ephemeral batch\<close>

text \<open>
  C9: \<^verbatim>\<open>Stage\<close> on an ephemeral batch never returns an error, for any command. It
  checks nothing about the entry index (the index is not constrained below), it returns
  the checked command also when the force-error check rejected it, and of the state
  machine it changes only the lease applied index of the ephemeral state: the replica
  with its storage, the application batch, and the raft applied index, lease and stats
  of the ephemeral state stay as they were.
\<close>

theorem ephemeral_Stage_never_errors:
  "(\<forall>s e. ephemeralReplicaAppBatch_Stage ext sm c \<noteq> Inr (s, Some e))
   \<and> (\<forall>li retry ferr.
        checkForcedErr ext (idKey c) (raftCmd c) (IsLocal c)
           (eph_state (sm_ephemeralBatch sm)) = Inr (li, retry, ferr)
        \<longrightarrow> (\<exists>c'. ephemeralReplicaAppBatch_Stage ext sm c
                 = Inr ((sm\<lparr>sm_ephemeralBatch := (sm_ephemeralBatch sm)
                           \<lparr>eph_state := (eph_state (sm_ephemeralBatch sm))
                              \<lparr>LeaseAppliedIndex := li\<rparr>\<rparr>\<rparr>, c'), None)
               \<and> leaseIndex c' = li \<and> ent c' = ent c \<and> raftCmd c' = raftCmd c
               \<and> (ferr \<noteq> None \<longrightarrow> forcedErr c' = ferr \<and> proposalRetry c' = retry)))"
proof (intro conjI allI impI)
  fix s e
  show "ephemeralReplicaAppBatch_Stage ext sm c \<noteq> Inr (s, Some e)"
    by (auto simp: ephemeralReplicaAppBatch_Stage_def Let_def split: sum.splits prod.splits)
next
  fix li retry ferr
  assume "checkForcedErr ext (idKey c) (raftCmd c) (IsLocal c)
            (eph_state (sm_ephemeralBatch sm)) = Inr (li, retry, ferr)"
  then show "\<exists>c'. ephemeralReplicaAppBatch_Stage ext sm c
                 = Inr ((sm\<lparr>sm_ephemeralBatch := (sm_ephemeralBatch sm)
                           \<lparr>eph_state := (eph_state (sm_ephemeralBatch sm))
                              \<lparr>LeaseAppliedIndex := li\<rparr>\<rparr>\<rparr>, c'), None)
               \<and> leaseIndex c' = li \<and> ent c' = ent c \<and> raftCmd c' = raftCmd c
               \<and> (ferr \<noteq> None \<longrightarrow> forcedErr c' = ferr \<and> proposalRetry c' = retry)"
    by (auto simp: ephemeralReplicaAppBatch_Stage_def shouldApplyCommand_def Let_def
                   replicatedResult_def
             split: option.splits prod.splits)
qed

text \<open>
  A command with entry index zero, proposed under a stale lease: the ephemeral batch
  returns it, rejected, with no error, and its lease applied index stays at 100.
\<close>

theorem ephemeral_Stage_never_errors_witness:
  "\<exists>c'. ephemeralReplicaAppBatch_Stage ext0 sm0
           (cmd0\<lparr>ent := (ent cmd0)\<lparr>Index := 0\<rparr>,
                 raftCmd := raftCmd0\<lparr>ProposerLeaseSequence := 4\<rparr>\<rparr>)
         = Inr ((sm0\<lparr>sm_ephemeralBatch := (sm_ephemeralBatch sm0)
                   \<lparr>eph_state := (eph_state (sm_ephemeralBatch sm0))
                      \<lparr>LeaseAppliedIndex := 100\<rparr>\<rparr>\<rparr>, c'), None)
       \<and> forcedErr c' = Some (NotLeaseHolderError (Some lease0) 1 (Some desc0) 4)"
proof -
  let ?c = "cmd0\<lparr>ent := (ent cmd0)\<lparr>Index := 0\<rparr>,
                  raftCmd := raftCmd0\<lparr>ProposerLeaseSequence := 4\<rparr>\<rparr>"
  have rej: "checkForcedErr ext0 (idKey ?c) (raftCmd ?c) (IsLocal ?c)
               (eph_state (sm_ephemeralBatch sm0))
               = Inr (100, proposalNoReevaluation,
                      Some (NotLeaseHolderError (Some lease0) 1 (Some desc0) 4))"
    by (simp add: check_defs ex_defs)
  from ephemeral_Stage_never_errors [of ext0 sm0 ?c] rej show ?thesis
    by fastforce
qed

subsection \<open>Committing\<close>

lemma addAppliedStateKeyToBatch_indices:
  "addAppliedStateKeyToBatch ext b = Inr (b', e) \<Longrightarrow>
     RaftAppliedIndex (state b') = RaftAppliedIndex (state b)
   \<and> LeaseAppliedIndex (state b') = LeaseAppliedIndex (state b)"
  by (auto simp: addAppliedStateKeyToBatch_def andThen_def batchWrite_def deref_def Let_def
           split: if_splits option.splits sum.splits prod.splits)

lemma addAppliedStateKeyToBatch_stats:
  "addAppliedStateKeyToBatch ext b = Inr (b', None) \<Longrightarrow>
     Stats (state b')
       = map_option
           (\<lambda>ms. if migrateToAppliedStateKey b then migratedStats ext ms
                 else if UsingAppliedStateKey (state b) then ms
                 else ms\<lparr>SysBytes := SysBytes ms +
                        (legacyAppliedIndexSysBytes ext (RaftAppliedIndex (state b))
                           (LeaseAppliedIndex (state b)) -
                         CalcAppliedIndexSysBytes ext (RaftAppliedIndex (state b))
                           (LeaseAppliedIndex (state b)))\<rparr>)
           (Stats (state b))"
  by (auto simp: addAppliedStateKeyToBatch_def andThen_def batchWrite_def deref_def Let_def
                 option.map_ident
           split: if_splits option.splits sum.splits prod.splits)

text \<open>
  C5, as the spec states it: when \<^verbatim>\<open>ApplyToStateMachine\<close> returns with success, the
  stats of the live state are the stats that were staged in the batch. Under the legacy
  layout they are not: writing the applied index blindly adjusts the system bytes of the
  batch's stats before they are published. A batch staged with seven live bytes and no
  system bytes, on a range whose legacy applied-index keys take 30 bytes where 28 were
  accounted for, publishes stats with two system bytes.
\<close>

theorem ApplyToStateMachine_commit_or_nothing_counterexample:
  "Stats (state (sm_batch smLegacy)) = Some (zeroMVCCStats\<lparr>LiveBytes := 7\<rparr>)
   \<and> (case replicaAppBatch_ApplyToStateMachine extLegacy smLegacy of
        Inr (sm', None) \<Rightarrow>
          Stats (mu_state (sm_r sm')) = Some (zeroMVCCStats\<lparr>LiveBytes := 7, SysBytes := 2\<rparr>)
      | _ \<Rightarrow> False)"
  by (simp add: commit_defs ex_defs Let_def)

text \<open>
  C5, amended: if \<^verbatim>\<open>ApplyToStateMachine\<close> on an application batch returns an error (a
  write of the applied state or the commit failed), the live state of the replica is
  unchanged. If it returns with success, the live state is the old one with the raft
  applied index and the lease applied index replaced by the staged ones, and the stats
  replaced in the same step: by the staged stats under the combined applied-state
  record; by the staged stats as the migration to that record leaves them when the
  migration is pending; and under the legacy layout by the staged stats with the system
  bytes increased by the bytes of the blind write of the applied index less the bytes
  accounted for the applied index.
\<close>

theorem ApplyToStateMachine_commit_or_nothing:
  "(\<forall>sm' e. replicaAppBatch_ApplyToStateMachine ext sm = Inr (sm', Some e)
       \<longrightarrow> mu_state (sm_r sm') = mu_state (sm_r sm))
   \<and> (\<forall>sm'. replicaAppBatch_ApplyToStateMachine ext sm = Inr (sm', None)
       \<longrightarrow> (\<exists>ms. Stats (state (sm_batch sm)) = Some ms
             \<and> mu_state (sm_r sm')
                 = (mu_state (sm_r sm))
                     \<lparr>RaftAppliedIndex := RaftAppliedIndex (state (sm_batch sm)),
                      LeaseAppliedIndex := LeaseAppliedIndex (state (sm_batch sm)),
                      Stats := Some
                        (if migrateToAppliedStateKey (sm_batch sm) then migratedStats ext ms
                         else if UsingAppliedStateKey (state (sm_batch sm)) then ms
                         else ms\<lparr>SysBytes := SysBytes ms +
                                (legacyAppliedIndexSysBytes ext
                                   (RaftAppliedIndex (state (sm_batch sm)))
                                   (LeaseAppliedIndex (state (sm_batch sm))) -
                                 CalcAppliedIndexSysBytes ext
                                   (RaftAppliedIndex (state (sm_batch sm)))
                                   (LeaseAppliedIndex (state (sm_batch sm))))\<rparr>)\<rparr>))"
proof (intro conjI allI impI)
  fix sm' e
  assume "replicaAppBatch_ApplyToStateMachine ext sm = Inr (sm', Some e)"
  then show "mu_state (sm_r sm') = mu_state (sm_r sm)"
    by (auto simp: replicaAppBatch_ApplyToStateMachine_def deref_def emit_def Let_def
             split: sum.splits prod.splits option.splits)
next
  fix sm'
  assume ok: "replicaAppBatch_ApplyToStateMachine ext sm = Inr (sm', None)"
  then obtain b where b: "addAppliedStateKeyToBatch ext (sm_batch sm) = Inr (b, None)"
    by (auto simp: replicaAppBatch_ApplyToStateMachine_def Let_def
             split: sum.splits prod.splits option.splits)
  note ix = addAppliedStateKeyToBatch_indices [OF b]
  note sx = addAppliedStateKeyToBatch_stats [OF b]
  from ok b obtain new where new: "Stats (state b) = Some new"
    and pub: "mu_state (sm_r sm')
             = (mu_state (sm_r sm))
                 \<lparr>RaftAppliedIndex := RaftAppliedIndex (state b),
                  LeaseAppliedIndex := LeaseAppliedIndex (state b),
                  Stats := Some new\<rparr>"
    by (auto simp: replicaAppBatch_ApplyToStateMachine_def deref_def emit_def Let_def
                   recordStatsOnCommit_def
             split: sum.splits prod.splits option.splits)
  from new sx obtain ms where ms: "Stats (state (sm_batch sm)) = Some ms"
    by (cases "Stats (state (sm_batch sm))") auto
  with new sx ix pub
  show "\<exists>ms. Stats (state (sm_batch sm)) = Some ms
             \<and> mu_state (sm_r sm')
                 = (mu_state (sm_r sm))
                     \<lparr>RaftAppliedIndex := RaftAppliedIndex (state (sm_batch sm)),
                      LeaseAppliedIndex := LeaseAppliedIndex (state (sm_batch sm)),
                      Stats := Some
                        (if migrateToAppliedStateKey (sm_batch sm) then migratedStats ext ms
                         else if UsingAppliedStateKey (state (sm_batch sm)) then ms
                         else ms\<lparr>SysBytes := SysBytes ms +
                                (legacyAppliedIndexSysBytes ext
                                   (RaftAppliedIndex (state (sm_batch sm)))
                                   (LeaseAppliedIndex (state (sm_batch sm))) -
                                 CalcAppliedIndexSysBytes ext
                                   (RaftAppliedIndex (state (sm_batch sm)))
                                   (LeaseAppliedIndex (state (sm_batch sm))))\<rparr>)\<rparr>"
    by auto
qed

text \<open>
  The staged batch of the first scenario: when the commit succeeds the live state has
  applied index 11, lease applied index 101 and seven live bytes; when the engine
  refuses the commit the live state is the one before. The same batch under the legacy
  layout: the commit succeeds and the live state has two system bytes more.
\<close>

theorem ApplyToStateMachine_commit_or_nothing_witness:
  "(\<exists>sm'. replicaAppBatch_ApplyToStateMachine ext0 smStaged = Inr (sm', None)
      \<and> mu_state (sm_r sm')
          = state0\<lparr>RaftAppliedIndex := 11, LeaseAppliedIndex := 101,
                   Stats := Some (zeroMVCCStats\<lparr>LiveBytes := 7\<rparr>)\<rparr>)
   \<and> (\<exists>sm' e. replicaAppBatch_ApplyToStateMachine
                 (ext0\<lparr>CommitErr := (\<lambda>ops. Some ''disk full'')\<rparr>) smStaged
               = Inr (sm', Some e)
      \<and> mu_state (sm_r sm') = state0)
   \<and> (\<exists>sm'. replicaAppBatch_ApplyToStateMachine extLegacy smLegacy = Inr (sm', None)
      \<and> mu_state (sm_r sm')
          = state0\<lparr>RaftAppliedIndex := 11, LeaseAppliedIndex := 101,
                   Stats := Some (zeroMVCCStats\<lparr>LiveBytes := 7, SysBytes := 2\<rparr>)\<rparr>)"
proof -
  let ?full = "ext0\<lparr>CommitErr := (\<lambda>ops. Some ''disk full'')\<rparr>"
  have "\<exists>sm'. replicaAppBatch_ApplyToStateMachine ext0 smStaged = Inr (sm', None)"
    by (simp add: commit_defs ex_defs Let_def)
  then obtain sm1 where ok: "replicaAppBatch_ApplyToStateMachine ext0 smStaged = Inr (sm1, None)"
    by blast
  from ApplyToStateMachine_commit_or_nothing [of ext0 smStaged] ok
  obtain ms1 where "Stats (state (sm_batch smStaged)) = Some ms1"
    "mu_state (sm_r sm1)
       = (mu_state (sm_r smStaged))
           \<lparr>RaftAppliedIndex := RaftAppliedIndex (state (sm_batch smStaged)),
            LeaseAppliedIndex := LeaseAppliedIndex (state (sm_batch smStaged)),
            Stats := Some
              (if migrateToAppliedStateKey (sm_batch smStaged) then migratedStats ext0 ms1
               else if UsingAppliedStateKey (state (sm_batch smStaged)) then ms1
               else ms1\<lparr>SysBytes := SysBytes ms1 +
                      (legacyAppliedIndexSysBytes ext0
                         (RaftAppliedIndex (state (sm_batch smStaged)))
                         (LeaseAppliedIndex (state (sm_batch smStaged))) -
                       CalcAppliedIndexSysBytes ext0
                         (RaftAppliedIndex (state (sm_batch smStaged)))
                         (LeaseAppliedIndex (state (sm_batch smStaged))))\<rparr>)\<rparr>"
    by blast
  then have 1: "mu_state (sm_r sm1)
          = state0\<lparr>RaftAppliedIndex := 11, LeaseAppliedIndex := 101,
                   Stats := Some (zeroMVCCStats\<lparr>LiveBytes := 7\<rparr>)\<rparr>"
    by (auto simp: ex_defs)
  have "\<exists>sm' e. replicaAppBatch_ApplyToStateMachine ?full smStaged = Inr (sm', Some e)"
    by (simp add: commit_defs ex_defs Let_def)
  then obtain sm2 e where bad: "replicaAppBatch_ApplyToStateMachine ?full smStaged
                                  = Inr (sm2, Some e)"
    by blast
  from ApplyToStateMachine_commit_or_nothing [of ?full smStaged] bad
  have "mu_state (sm_r sm2) = mu_state (sm_r smStaged)"
    by blast
  then have 2: "mu_state (sm_r sm2) = state0"
    by (simp add: ex_defs)
  have "\<exists>sm'. replicaAppBatch_ApplyToStateMachine extLegacy smLegacy = Inr (sm', None)"
    by (simp add: commit_defs ex_defs Let_def)
  then obtain sm3 where leg: "replicaAppBatch_ApplyToStateMachine extLegacy smLegacy = Inr (sm3, None)"
    by blast
  from ApplyToStateMachine_commit_or_nothing [of extLegacy smLegacy] leg
  obtain ms3 where "Stats (state (sm_batch smLegacy)) = Some ms3"
    "mu_state (sm_r sm3)
       = (mu_state (sm_r smLegacy))
           \<lparr>RaftAppliedIndex := RaftAppliedIndex (state (sm_batch smLegacy)),
            LeaseAppliedIndex := LeaseAppliedIndex (state (sm_batch smLegacy)),
            Stats := Some
              (if migrateToAppliedStateKey (sm_batch smLegacy) then migratedStats extLegacy ms3
               else if UsingAppliedStateKey (state (sm_batch smLegacy)) then ms3
               else ms3\<lparr>SysBytes := SysBytes ms3 +
                      (legacyAppliedIndexSysBytes extLegacy
                         (RaftAppliedIndex (state (sm_batch smLegacy)))
                         (LeaseAppliedIndex (state (sm_batch smLegacy))) -
                       CalcAppliedIndexSysBytes extLegacy
                         (RaftAppliedIndex (state (sm_batch smLegacy)))
                         (LeaseAppliedIndex (state (sm_batch smLegacy))))\<rparr>)\<rparr>"
    by blast
  then have 3: "mu_state (sm_r sm3)
          = state0\<lparr>RaftAppliedIndex := 11, LeaseAppliedIndex := 101,
                   Stats := Some (zeroMVCCStats\<lparr>LiveBytes := 7, SysBytes := 2\<rparr>)\<rparr>"
    by (auto simp: ex_defs)
  from ok 1 bad 2 leg 3 show ?thesis by blast
qed

text \<open>
  C6: with \<^verbatim>\<open>using_applied_state_key\<close> true in the batch's state and no migration
  pending, the commit adds to the batch exactly the one combined record of raft applied
  index, lease applied index and stats; and whenever the flag is true, whatever the
  outcome, nothing is added that writes the legacy applied-index key or the legacy
  stats key. When \<^verbatim>\<open>migrate_to_applied_state_key\<close> is set, a commit that succeeds has
  added the deletion of the legacy keys and then the new record (with the stats as the
  deletion leaves them), and has set \<^verbatim>\<open>using_applied_state_key\<close> in the batch's state.
\<close>

theorem addAppliedStateKeyToBatch_layout:
  assumes "batch b = Some ops"
  shows "(UsingAppliedStateKey (state b) \<and> \<not> migrateToAppliedStateKey b \<longrightarrow>
            (\<forall>b'. addAppliedStateKeyToBatch ext b = Inr (b', None) \<longrightarrow>
               batch b' = Some (ops @ [SetRangeAppliedState (RaftAppliedIndex (state b))
                                         (LeaseAppliedIndex (state b)) (Stats (state b))])))
       \<and> (UsingAppliedStateKey (state b) \<longrightarrow>
            (\<forall>b' e. addAppliedStateKeyToBatch ext b = Inr (b', e) \<longrightarrow>
               (\<exists>new. batch b' = Some (ops @ new)
                  \<and> (\<forall>w \<in> set new. (\<exists>ms. w = MigrateToRangeAppliedStateKey ms)
                                     \<or> (\<exists>rai lai ms. w = SetRangeAppliedState rai lai ms)))))
       \<and> (migrateToAppliedStateKey b \<longrightarrow>
            (\<forall>b'. addAppliedStateKeyToBatch ext b = Inr (b', None) \<longrightarrow>
               batch b' = Some (ops @ [MigrateToRangeAppliedStateKey (Stats (state b)),
                                        SetRangeAppliedState (RaftAppliedIndex (state b))
                                          (LeaseAppliedIndex (state b))
                                          (map_option (migratedStats ext) (Stats (state b)))])
               \<and> UsingAppliedStateKey (state b')))"
  using assms
  by (auto simp: addAppliedStateKeyToBatch_def andThen_def batchWrite_def deref_def Let_def
           split: if_splits option.splits sum.splits prod.splits)

text \<open>
  The staged batch of the first scenario under the combined record, and a batch under
  the legacy layout with the migration pending, whose legacy keys take 28 of its 40
  system bytes.
\<close>

theorem addAppliedStateKeyToBatch_layout_witness:
  "(\<exists>b'. addAppliedStateKeyToBatch ext0 (sm_batch smStaged) = Inr (b', None)
      \<and> batch b' = Some [ApplyBatchRepr [1, 2, 3],
                          SetRangeAppliedState 11 101 (Some (zeroMVCCStats\<lparr>LiveBytes := 7\<rparr>))])
   \<and> (\<exists>b'. addAppliedStateKeyToBatch ext0
              ((sm_batch smStaged)
                 \<lparr>state := (state (sm_batch smStaged))
                    \<lparr>UsingAppliedStateKey := False,
                     Stats := Some (zeroMVCCStats\<lparr>LiveBytes := 7, SysBytes := 40\<rparr>)\<rparr>,
                  migrateToAppliedStateKey := True\<rparr>) = Inr (b', None)
      \<and> batch b' = Some [ApplyBatchRepr [1, 2, 3],
                          MigrateToRangeAppliedStateKey
                            (Some (zeroMVCCStats\<lparr>LiveBytes := 7, SysBytes := 40\<rparr>)),
                          SetRangeAppliedState 11 101
                            (Some (zeroMVCCStats\<lparr>LiveBytes := 7, SysBytes := 12\<rparr>))]
      \<and> UsingAppliedStateKey (state b'))"
proof -
  let ?b = "sm_batch smStaged"
  let ?m = "?b\<lparr>state := (state ?b)
                  \<lparr>UsingAppliedStateKey := False,
                   Stats := Some (zeroMVCCStats\<lparr>LiveBytes := 7, SysBytes := 40\<rparr>)\<rparr>,
                migrateToAppliedStateKey := True\<rparr>"
  have ops: "batch ?b = Some [ApplyBatchRepr [1, 2, 3]]"
    and ops': "batch ?m = Some [ApplyBatchRepr [1, 2, 3]]"
    by (simp_all add: ex_defs)
  have u: "UsingAppliedStateKey (state ?b) \<and> \<not> migrateToAppliedStateKey ?b"
    and m: "migrateToAppliedStateKey ?m"
    by (simp_all add: ex_defs)
  have "\<exists>b'. addAppliedStateKeyToBatch ext0 ?b = Inr (b', None)"
    by (simp add: commit_defs ex_defs Let_def)
  then obtain b1 where r1: "addAppliedStateKeyToBatch ext0 ?b = Inr (b1, None)" by blast
  with addAppliedStateKeyToBatch_layout [OF ops, of ext0] u
  have "batch b1 = Some ([ApplyBatchRepr [1, 2, 3]] @
          [SetRangeAppliedState (RaftAppliedIndex (state ?b)) (LeaseAppliedIndex (state ?b))
             (Stats (state ?b))])"
    by blast
  then have 1: "batch b1 = Some [ApplyBatchRepr [1, 2, 3],
                  SetRangeAppliedState 11 101 (Some (zeroMVCCStats\<lparr>LiveBytes := 7\<rparr>))]"
    by (simp add: ex_defs)
  have "\<exists>b'. addAppliedStateKeyToBatch ext0 ?m = Inr (b', None)"
    by (simp add: commit_defs ex_defs Let_def)
  then obtain b2 where r2: "addAppliedStateKeyToBatch ext0 ?m = Inr (b2, None)" by blast
  with addAppliedStateKeyToBatch_layout [OF ops', of ext0] m
  have "batch b2 = Some ([ApplyBatchRepr [1, 2, 3]] @
          [MigrateToRangeAppliedStateKey (Stats (state ?m)),
           SetRangeAppliedState (RaftAppliedIndex (state ?m)) (LeaseAppliedIndex (state ?m))
             (map_option (migratedStats ext0) (Stats (state ?m)))])
        \<and> UsingAppliedStateKey (state b2)"
    by blast
  then have 2: "batch b2 = Some [ApplyBatchRepr [1, 2, 3],
                  MigrateToRangeAppliedStateKey
                    (Some (zeroMVCCStats\<lparr>LiveBytes := 7, SysBytes := 40\<rparr>)),
                  SetRangeAppliedState 11 101
                    (Some (zeroMVCCStats\<lparr>LiveBytes := 7, SysBytes := 12\<rparr>))]
                \<and> UsingAppliedStateKey (state b2)"
    by (simp add: ex_defs)
  from r1 1 r2 2 show ?thesis by blast
qed

subsection \<open>Side effects\<close>

lemma handleLogEffects_calls:
  "trace (fst (handleLogEffects ext r res)) = trace r @ spec_logCalls ext r res"
proof (cases "State res")
  case None
  then show ?thesis
    by (cases "RaftLogDelta res = 0"; cases "SuggestedCompactions res = []")
       (simp_all add: handleLogEffects_def spec_logCalls_def emit_def Let_def)
next
  case (Some st)
  show ?thesis
  proof (cases "TruncatedState st")
    case None
    with Some show ?thesis
      by (cases "RaftLogDelta res = 0"; cases "SuggestedCompactions res = []")
         (simp_all add: handleLogEffects_def spec_logCalls_def emit_def Let_def)
  next
    case (Some t)
    with \<open>State res = Some st\<close> show ?thesis
      by (cases "RaftLogDelta res + handleTruncatedStateResult ext r t = 0";
          cases "SuggestedCompactions res = []")
         (simp_all add: handleLogEffects_def spec_logCalls_def emit_def Let_def)
  qed
qed

lemma zero_state_fields:
  "st\<lparr>TruncatedState := None\<rparr> = zeroReplicaState \<Longrightarrow>
     Desc st = None \<and> Lease st = None \<and> GCThreshold st = None \<and> \<not> UsingAppliedStateKey st"
proof -
  assume z: "st\<lparr>TruncatedState := None\<rparr> = zeroReplicaState"
  have "Desc (st\<lparr>TruncatedState := None\<rparr>) = Desc st"
    "Lease (st\<lparr>TruncatedState := None\<rparr>) = Lease st"
    "GCThreshold (st\<lparr>TruncatedState := None\<rparr>) = GCThreshold st"
    "UsingAppliedStateKey (st\<lparr>TruncatedState := None\<rparr>) = UsingAppliedStateKey st"
    by simp_all
  with z show ?thesis by (simp add: zeroReplicaState_def)
qed

lemma zeroReplicaState_fields:
  "Desc zeroReplicaState = None" "Lease zeroReplicaState = None"
  "GCThreshold zeroReplicaState = None" "\<not> UsingAppliedStateKey zeroReplicaState"
  "TruncatedState zeroReplicaState = None"
  by (simp_all add: zeroReplicaState_def)

lemma handleLogEffects_keeps:
  "spec_stateCalls (fst (snd (handleLogEffects ext r res))) = spec_stateCalls res"
proof (cases "State res")
  case None
  then show ?thesis
    by (cases "RaftLogDelta res = 0"; cases "SuggestedCompactions res = []")
       (simp_all add: handleLogEffects_def spec_stateCalls_def Let_def)
next
  case (Some st)
  show ?thesis
  proof (cases "TruncatedState st")
    case None
    with Some show ?thesis
      by (cases "RaftLogDelta res = 0"; cases "SuggestedCompactions res = []";
          cases "st = zeroReplicaState")
         (auto simp: handleLogEffects_def spec_stateCalls_def Let_def
                     zeroReplicaState_fields)
  next
    case (Some t)
    with \<open>State res = Some st\<close> show ?thesis
      by (cases "RaftLogDelta res + handleTruncatedStateResult ext r t = 0";
          cases "SuggestedCompactions res = []";
          cases "st\<lparr>TruncatedState := None\<rparr> = zeroReplicaState")
         (auto simp: handleLogEffects_def spec_stateCalls_def Let_def
               dest: zero_state_fields)
  qed
qed

lemma handleStateEffects_calls:
  "trace (fst (handleStateEffects r res p)) = trace r @ spec_stateCalls res"
proof (cases "State res")
  case None
  then show ?thesis
    by (cases "Split res"; cases "Merge res"; cases "ChangeReplicas res";
        cases "ComputeChecksum res")
       (simp_all add: handleStateEffects_def spec_stateCalls_def emit_def Let_def)
next
  case (Some st)
  then show ?thesis
    by (cases "Split res"; cases "Merge res"; cases "ChangeReplicas res";
        cases "ComputeChecksum res"; cases "Desc st"; cases "Lease st";
        cases "GCThreshold st"; cases "UsingAppliedStateKey st")
       (simp_all add: handleStateEffects_def spec_stateCalls_def emit_def Let_def)
qed

lemma spec_stateCalls_zero: "spec_stateCalls zeroReplicatedEvalResult = []"
  by (simp add: spec_stateCalls_def zeroReplicatedEvalResult_def)

lemma handleNonTrivial_calls:
  assumes "handleNonTrivialReplicatedEvalResult ext r res = Inr (r2, pointed, sa)"
  shows "trace r2 = trace r @ spec_handlerCalls ext r res"
proof -
  let ?l = "handleLogEffects ext r res"
  let ?s = "handleStateEffects (fst ?l) (fst (snd ?l)) (snd (snd ?l))"
  note t1 = handleLogEffects_calls [of ext r res]
  note k = handleLogEffects_keeps [of ext r res]
  note t2 = handleStateEffects_calls [of "fst ?l" "fst (snd ?l)" "snd (snd ?l)"]
  show ?thesis
  proof (cases "fst (snd ?l) = zeroReplicatedEvalResult")
    case True
    with assms have "r2 = fst ?l"
      by (auto simp: handleNonTrivialReplicatedEvalResult_def Let_def split_def
               split: if_splits)
    with True t1 k spec_stateCalls_zero show ?thesis
      by (simp add: spec_handlerCalls_def)
  next
    case False
    with assms have "r2 = fst ?s"
      by (auto simp: handleNonTrivialReplicatedEvalResult_def Let_def split_def
               split: if_splits)
    with t1 t2 k show ?thesis
      by (simp add: spec_handlerCalls_def)
  qed
qed

lemma maybeApplyConfChange_trace:
  "maybeApplyConfChange ext r c = Inr (r', c', e) \<Longrightarrow>
     \<exists>evs. trace r' = trace r @ evs \<and> AssertState \<notin> set evs"
  by (auto simp: maybeApplyConfChange_def emit_def Let_def
           split: EntryType.splits if_splits option.splits)

lemma deferred_trace:
  "\<exists>evs. trace (deferred blk u r) = trace r @ evs \<and> AssertState \<notin> set evs"
  by (auto simp: deferred_def emit_def Let_def split: option.splits)

lemma handleNonTrivial_shouldAssert:
  "handleNonTrivialReplicatedEvalResult ext r res = Inr (r2, pointed, sa) \<Longrightarrow>
     sa = (fst (snd (handleLogEffects ext r res)) \<noteq> zeroReplicatedEvalResult)"
  by (auto simp: handleNonTrivialReplicatedEvalResult_def Let_def
           split: if_splits prod.splits)

lemma ApplySideEffects_after_handle:
  assumes "replicaStateMachine_ApplySideEffects ext sm c = Inr ((sm', c'), err)"
    and "ApplySideEffects_prepare ext (sm_r sm) c = Inr (r1, blk, c1)"
    and "ApplySideEffects_handle ext r1 (sm_stats sm) c1 = Inr (r3, stats, c3)"
  shows "sm_stats sm' = stats
         \<and> (\<exists>evs. trace (sm_r sm') = trace r3 @ evs \<and> AssertState \<notin> set evs)"
proof -
  let ?r4 = "(if RaftLogDelta (replicatedResult c3) = 0
              then emit r3 [HandleNoRaftLogDeltaResult] else r3)"
  let ?r5 = "(case localResult c3 of
                None \<Rightarrow> ?r4
              | Some lr \<Rightarrow> emit ?r4 [HandleLocalEvalResult lr])"
  have t5: "\<exists>evs. trace ?r5 = trace r3 @ evs \<and> AssertState \<notin> set evs"
    by (auto simp: emit_def split: option.splits)
  from assms obtain r6 c6 e6 where cc: "maybeApplyConfChange ext ?r5 c3 = Inr (r6, c6, e6)"
    and sm': "sm_r sm' = deferred blk (splitMergeUnlock c) r6" "sm_stats sm' = stats"
    by (auto simp: replicaStateMachine_ApplySideEffects_def Let_def
             split: sum.splits option.splits prod.splits)
  from maybeApplyConfChange_trace [OF cc] deferred_trace [of blk "splitMergeUnlock c" r6]
    t5 sm'
  show ?thesis by auto
qed

text \<open>
  C7, as the spec states it: whenever the replicated result is still non-empty after the
  trivial fields have been cleared, \<^verbatim>\<open>ApplySideEffects\<close> runs the non-trivial handlers
  and then asserts that the state on disk is the state in memory. A log truncation is
  such a command, and no assertion is made for it: its truncated state and log size
  delta are handled, nothing else is left, and \<^verbatim>\<open>shouldAssert\<close> is false.
\<close>

theorem ApplySideEffects_assertion_counterexample:
  "clearTrivialReplicatedEvalResultFields ext0 (replicatedResult cmdTruncate)
     \<noteq> zeroReplicatedEvalResult
   \<and> (case replicaStateMachine_ApplySideEffects ext0 sm0 cmdTruncate of
        Inr ((sm', c'), None) \<Rightarrow>
          stateAssertions (sm_stats sm') = stateAssertions (sm_stats sm0)
          \<and> trace (sm_r sm') = [HandleTruncatedStateResult 3, HandleRaftLogDeltaResult 5]
      | _ \<Rightarrow> False)"
  by (simp add: side_defs check_defs ex_defs Let_def)

text \<open>
  C7, amended: for every command whose replicated result is still non-empty after the
  trivial fields have been cleared, an \<^verbatim>\<open>ApplySideEffects\<close> that returns has run the
  non-trivial handlers: the calls made are exactly the ones the spec lists for the
  fields present in the result, in the spec's order. It then asserts that the state on
  disk is the state in memory, once and right after the handlers, exactly when the
  result is still non-empty after the truncated state, the log size delta and the
  suggested compactions have been handled, and makes no assertion otherwise.
  (\<open>rest\<close> are the calls after the assertion.)
\<close>

theorem ApplySideEffects_assertion:
  assumes prep: "ApplySideEffects_prepare ext (sm_r sm) c = Inr (r1, blk, c1)"
    and ne: "replicatedResult c1 \<noteq> zeroReplicatedEvalResult"
    and ret: "replicaStateMachine_ApplySideEffects ext sm c = Inr ((sm', c'), err)"
  shows "\<exists>r2 pointed shouldAssert rest.
           handleNonTrivialReplicatedEvalResult ext r1 (replicatedResult c1)
             = Inr (r2, pointed, shouldAssert)
         \<and> trace r2 = trace r1 @ spec_handlerCalls ext r1 (replicatedResult c1)
         \<and> shouldAssert
             = (fst (snd (handleLogEffects ext r1 (replicatedResult c1)))
                  \<noteq> zeroReplicatedEvalResult)
         \<and> stateAssertions (sm_stats sm')
             = stateAssertions (sm_stats sm) + (if shouldAssert then 1 else 0)
         \<and> trace (sm_r sm')
             = trace r1 @ spec_handlerCalls ext r1 (replicatedResult c1)
                 @ (if shouldAssert then [AssertState] else []) @ rest
         \<and> AssertState \<notin> set rest"
proof -
  from ret prep obtain r3 stats c3
    where h: "ApplySideEffects_handle ext r1 (sm_stats sm) c1 = Inr (r3, stats, c3)"
    by (auto simp: replicaStateMachine_ApplySideEffects_def Let_def
             split: sum.splits prod.splits)
  from ApplySideEffects_after_handle [OF ret prep h]
  obtain evs where a: "sm_stats sm' = stats" "trace (sm_r sm') = trace r3 @ evs"
      "AssertState \<notin> set evs"
    by blast
  from h ne obtain r2 pointed sa where
    hn: "handleNonTrivialReplicatedEvalResult ext r1 (replicatedResult c1)
           = Inr (r2, pointed, sa)"
    by (auto simp: ApplySideEffects_handle_def Let_def
             split: if_splits sum.splits prod.splits)
  from h hn ne have r3: "trace r3 = trace r2 @ (if sa then [AssertState] else [])"
    and st: "stateAssertions stats = stateAssertions (sm_stats sm) + (if sa then 1 else 0)"
    by (auto simp: ApplySideEffects_handle_def emit_def Let_def split: if_splits)
  from handleNonTrivial_shouldAssert [OF hn] handleNonTrivial_calls [OF hn] hn r3 st a
  show ?thesis
    by auto
qed

text \<open>
  A split: its handler runs and the assertion is made once, after it. A log truncation:
  its handlers run and no assertion is made.
\<close>

theorem ApplySideEffects_assertion_witness:
  "(\<exists>sm' c' rest. replicaStateMachine_ApplySideEffects ext0 sm0 cmdSplit = Inr ((sm', c'), None)
      \<and> stateAssertions (sm_stats sm') = 1
      \<and> trace (sm_r sm') = [HandleSplitResult \<lparr>SplitTrigger = 1\<rparr>, AssertState] @ rest
      \<and> AssertState \<notin> set rest)
   \<and> (\<exists>sm' c' rest. replicaStateMachine_ApplySideEffects ext0 sm0 cmdTruncate
                      = Inr ((sm', c'), None)
      \<and> stateAssertions (sm_stats sm') = 0
      \<and> trace (sm_r sm') = [HandleTruncatedStateResult 3, HandleRaftLogDeltaResult 5] @ rest
      \<and> AssertState \<notin> set rest)"
proof -
  have p1: "ApplySideEffects_prepare ext0 (sm_r sm0) cmdSplit
              = Inr (replica0, False, cmdSplit\<lparr>localResult := None\<rparr>)"
    by (simp add: ApplySideEffects_prepare_def check_defs ex_defs Let_def)
  have n1: "replicatedResult (cmdSplit\<lparr>localResult := None\<rparr>) \<noteq> zeroReplicatedEvalResult"
    by (simp add: check_defs ex_defs)
  have "\<exists>sm' c'. replicaStateMachine_ApplySideEffects ext0 sm0 cmdSplit = Inr ((sm', c'), None)"
    by (simp add: side_defs check_defs ex_defs Let_def)
  then obtain sm1 c1'
    where r1: "replicaStateMachine_ApplySideEffects ext0 sm0 cmdSplit = Inr ((sm1, c1'), None)"
    by blast
  have s1: "spec_handlerCalls ext0 replica0 (replicatedResult (cmdSplit\<lparr>localResult := None\<rparr>))
              = [HandleSplitResult \<lparr>SplitTrigger = 1\<rparr>]"
    and a1: "fst (snd (handleLogEffects ext0 replica0
                         (replicatedResult (cmdSplit\<lparr>localResult := None\<rparr>))))
               \<noteq> zeroReplicatedEvalResult"
    by (simp_all add: spec_handlerCalls_def spec_logCalls_def spec_stateCalls_def
                      handleLogEffects_def check_defs ex_defs Let_def)
  from ApplySideEffects_assertion [OF p1 n1 r1] s1 a1
  obtain rest1 where
    1: "stateAssertions (sm_stats sm1) = stateAssertions (sm_stats sm0) + 1"
       "trace (sm_r sm1)
          = trace replica0 @ [HandleSplitResult \<lparr>SplitTrigger = 1\<rparr>] @ [AssertState] @ rest1"
       "AssertState \<notin> set rest1"
    by auto
  have p2: "ApplySideEffects_prepare ext0 (sm_r sm0) cmdTruncate
              = Inr (replica0, False, cmdTruncate\<lparr>localResult := None\<rparr>)"
    by (simp add: ApplySideEffects_prepare_def check_defs ex_defs Let_def)
  have n2: "replicatedResult (cmdTruncate\<lparr>localResult := None\<rparr>) \<noteq> zeroReplicatedEvalResult"
    by (simp add: check_defs ex_defs)
  have "\<exists>sm' c'. replicaStateMachine_ApplySideEffects ext0 sm0 cmdTruncate
                   = Inr ((sm', c'), None)"
    by (simp add: side_defs check_defs ex_defs Let_def)
  then obtain sm2 c2'
    where r2: "replicaStateMachine_ApplySideEffects ext0 sm0 cmdTruncate
                 = Inr ((sm2, c2'), None)"
    by blast
  have s2: "spec_handlerCalls ext0 replica0 (replicatedResult (cmdTruncate\<lparr>localResult := None\<rparr>))
              = [HandleTruncatedStateResult 3, HandleRaftLogDeltaResult 5]"
    and a2: "fst (snd (handleLogEffects ext0 replica0
                         (replicatedResult (cmdTruncate\<lparr>localResult := None\<rparr>))))
               = zeroReplicatedEvalResult"
    by (simp_all add: spec_handlerCalls_def spec_logCalls_def spec_stateCalls_def
                      handleLogEffects_def check_defs ex_defs Let_def)
  from ApplySideEffects_assertion [OF p2 n2 r2] s2 a2
  obtain rest2 where
    2: "stateAssertions (sm_stats sm2) = stateAssertions (sm_stats sm0)"
       "trace (sm_r sm2)
          = trace replica0 @ [HandleTruncatedStateResult 3, HandleRaftLogDeltaResult 5] @ rest2"
       "AssertState \<notin> set rest2"
    by auto
  have z: "stateAssertions (sm_stats sm0) = 0" "trace replica0 = []"
    by (simp_all add: ex_defs)
  from r1 1 r2 2 z show ?thesis
    by auto
qed









end
